theory Spec2Isabelle
  imports Main "HOL-Library.Multiset"
begin

section \<open>Data model\<close>

text \<open>
  The repository holds three versions of one Express server: \<^verbatim>\<open>server.js\<close> and two
  unnamed files (\<^verbatim>\<open>part_000\<close>, \<^verbatim>\<open>part_001\<close>).  Definitions without a suffix embed
  \<^verbatim>\<open>server.js\<close>; the suffixes \<open>_p0\<close> and \<open>_p1\<close> mark the embeddings of the two other
  files where they differ.
\<close>

text \<open>
  JSON values as \<^verbatim>\<open>res.json\<close> serialises them.  A JavaScript object literal may hold
  \<^verbatim>\<open>undefined\<close> under a key; \<^verbatim>\<open>JSON.stringify\<close> drops such keys, which \<open>obj\<close> does.
\<close>

datatype json =
    JBool bool
  | JNum nat
  | JStr string
  | JDate int
  | JArr "json list"
  | JObj "(string \<times> json) list"

definition obj :: "(string \<times> json option) list \<Rightarrow> json" where
  "obj kvs = JObj (List.map_filter (\<lambda>(k, v). map_option (Pair k) v) kvs)"

fun field :: "json \<Rightarrow> string \<Rightarrow> json option" where
  "field (JObj kvs) k = map_of kvs k"
| "field _ k = None"

fun at_path :: "json \<Rightarrow> string list \<Rightarrow> json option" where
  "at_path j [] = Some j"
| "at_path j (k # ks) = (case field j k of None \<Rightarrow> None | Some v \<Rightarrow> at_path v ks)"

text \<open>
  The file object that multer hands to \<^verbatim>\<open>fileFilter\<close> and \<^verbatim>\<open>storage.filename\<close> is a
  \<open>part\<close>: what the client declared, and the number of bytes it sent.  Once stored, the
  disk storage adds \<open>filename\<close> and \<open>path\<close>, and the route handler reads the whole as
  \<^verbatim>\<open>req.file\<close>.
\<close>

record part =
  originalname :: string
  mimetype :: string
  size_f :: nat

record stored_file = part +
  filename :: string
  path :: string

text \<open>
  The request: \<^verbatim>\<open>req.protocol\<close>, \<^verbatim>\<open>req.get('host')\<close> as the template literal renders it,
  and the file part carried by the multipart field \<^verbatim>\<open>image\<close>, if any.
\<close>

record request =
  protocol :: string
  host :: string
  image_field :: "part option"

text \<open>A document of the \<^verbatim>\<open>Image\<close> model (\<^verbatim>\<open>imageSchema\<close>), with its \<^verbatim>\<open>_id\<close>.\<close>

record image_doc =
  img_id :: string
  img_filename :: string
  img_originalname :: string
  img_path :: string
  img_size :: nat
  img_mimetype :: string
  img_createdAt :: int

text \<open>An error value: a plain \<^verbatim>\<open>Error\<close> or a \<^verbatim>\<open>multer.MulterError\<close>, with its message.\<close>

datatype error = Error string | MulterError string

record response =
  status :: nat
  body :: json

section \<open>Upload validator\<close>

definition allowedTypes :: "string list" where
  "allowedTypes = [''image/jpeg'', ''image/png'', ''image/gif'', ''image/webp'']"

text \<open>
  \<^verbatim>\<open>fileFilter(req, file, cb)\<close>: \<open>Inr True\<close> is \<^verbatim>\<open>cb(null, true)\<close>, \<open>Inl e\<close> is
  \<^verbatim>\<open>cb(e, false)\<close>.
\<close>

definition fileFilter :: "request \<Rightarrow> part \<Rightarrow> error + bool" where
  "fileFilter req f =
     (if mimetype f \<in> set allowedTypes then Inr True
      else Inl (Error ''Invalid file type. Only images are allowed (JPEG, PNG, GIF, WEBP)''))"

definition fileFilter_p0 :: "request \<Rightarrow> part \<Rightarrow> error + bool" where
  "fileFilter_p0 req f =
     (if mimetype f \<in> set allowedTypes then Inr True
      else Inl (Error ''Only JPG, PNG, GIF, or WEBP images are allowed''))"

definition fileFilter_p1 :: "request \<Rightarrow> part \<Rightarrow> error + bool" where
  "fileFilter_p1 req f =
     (if mimetype f \<in> set allowedTypes then Inr True
      else Inl (Error ''Invalid file type. Only JPG, PNG, GIF, or WEBP images are allowed''))"

section \<open>File persister\<close>

subsection \<open>Numbers in template literals\<close>

text \<open>
  \<^verbatim>\<open>Date.now()\<close> and \<^verbatim>\<open>Math.round(Math.random() * 1E9)\<close> are non-negative integers below
  \<open>10\<^sup>2\<^sup>1\<close>, which a template literal renders in decimal with no sign, point or exponent.
\<close>

definition digit :: "nat \<Rightarrow> char" where
  "digit d = ''0123456789'' ! d"

fun toString :: "nat \<Rightarrow> string" where
  "toString n = (if n < 10 then [digit n] else toString (n div 10) @ [digit (n mod 10)])"

subsection \<open>\<^verbatim>\<open>path.extname\<close>\<close>

text \<open>
  \<^verbatim>\<open>storage.filename\<close> takes the extension with Node's \<^verbatim>\<open>path.extname\<close> (POSIX), a
  backwards scan of the name that tracks the five variables of \<open>ext_state\<close>; \<open>None\<close>
  stands for Node's \<open>-1\<close> in \<open>startDot\<close> and \<open>endp\<close> (Node's \<^verbatim>\<open>end\<close>).
\<close>

record ext_state =
  startDot :: "nat option"
  startPart :: nat
  endp :: "nat option"
  matchedSlash :: bool
  preDotState :: int

text \<open>
  \<open>extname_loop p n s\<close> runs the loop body for \<open>i = n - 1\<close> down to \<open>0\<close>; the first
  branch is the loop's \<^verbatim>\<open>break\<close>.
\<close>

fun extname_loop :: "string \<Rightarrow> nat \<Rightarrow> ext_state \<Rightarrow> ext_state" where
  "extname_loop p 0 s = s"
| "extname_loop p (Suc i) s =
     (if p ! i = CHR ''/'' then
        (if \<not> matchedSlash s then s\<lparr>startPart := i + 1\<rparr>
         else extname_loop p i s)
      else
        (let s1 = (if endp s = None then s\<lparr>endp := Some (i + 1), matchedSlash := False\<rparr> else s);
             s2 = (if p ! i = CHR ''.'' then
                     (if startDot s1 = None then s1\<lparr>startDot := Some i\<rparr>
                      else if preDotState s1 \<noteq> 1 then s1\<lparr>preDotState := 1\<rparr>
                      else s1)
                   else if startDot s1 \<noteq> None then s1\<lparr>preDotState := - 1\<rparr>
                   else s1)
         in extname_loop p i s2))"

definition ext_init :: ext_state where
  "ext_init = \<lparr>startDot = None, startPart = 0, endp = None, matchedSlash = True, preDotState = 0\<rparr>"

definition extname :: "string \<Rightarrow> string" where
  "extname p =
     (let s = extname_loop p (length p) ext_init in
      case (startDot s, endp s) of
        (Some sd, Some e) \<Rightarrow>
          if preDotState s = 0 \<or> (preDotState s = 1 \<and> sd = e - 1 \<and> sd = startPart s + 1)
          then []
          else take (e - sd) (drop sd p)
      | _ \<Rightarrow> [])"

subsection \<open>Disk storage and the multer middleware\<close>

text \<open>
  What a request reads from outside the program: the clock and the random draw of
  \<^verbatim>\<open>storage.filename\<close>, and the database's part in \<^verbatim>\<open>save()\<close> and \<^verbatim>\<open>find()\<close>: the
  \<^verbatim>\<open>_id\<close> it assigns, the schema's default \<^verbatim>\<open>createdAt\<close> (\<^verbatim>\<open>Date.now\<close>), and the message of
  the error the operation rejects with, if it does; and the file system's part in the disk
  storage: the code and description of the error (as in \<^verbatim>\<open>EACCES: permission denied\<close>), if
  the file cannot be opened for writing.
\<close>

record env =
  now :: nat
  rnd :: nat
  new_id :: string
  created :: int
  db_error :: "string option"
  write_error :: "string option"

record config =
  NODE_ENV :: string
  UPLOAD_DIR :: string
  BASE_URL :: string

definition MAX_FILE_SIZE :: nat where
  "MAX_FILE_SIZE = 5 * 1024 * 1024"

text \<open>\<^verbatim>\<open>storage.filename\<close> of \<^verbatim>\<open>server.js\<close>, and of the two other files.\<close>

definition storage_filename :: "env \<Rightarrow> part \<Rightarrow> string" where
  "storage_filename e f =
     (let ext = extname (originalname f) in
      toString (now e) @ ''-'' @ toString (rnd e) @ ext)"

definition storage_filename_p0 :: "env \<Rightarrow> part \<Rightarrow> string" where
  "storage_filename_p0 e f =
     (let ext = extname (originalname f) in
      ''img-'' @ toString (now e) @ ext)"

text \<open>
  The upload directory, by file name, with the number of bytes of each file; and the state
  of the service: the \<^verbatim>\<open>images\<close> collection in insertion order, and the directory.
\<close>

type_synonym disk = "string \<rightharpoonup> nat"

record state =
  db :: "image_doc list"
  files :: disk

text \<open>
  \<^verbatim>\<open>multer({storage, limits: {fileSize}, fileFilter}).single('image')\<close> on a request with at
  most one file part, in the field \<^verbatim>\<open>image\<close>.  \<open>Inr rf\<close> is \<^verbatim>\<open>next()\<close> with \<^verbatim>\<open>req.file = rf\<close>,
  \<open>Inl err\<close> is \<^verbatim>\<open>next(err)\<close>.  An error of the filter is passed on as it is, before
  anything is written.  When the disk storage cannot open \<^verbatim>\<open>destination/filename\<close> for
  writing, it passes Node's file-system error on, a plain \<^verbatim>\<open>Error\<close> whose message names
  the operation and the path (\<open>fs_message\<close>), and nothing is written.  A file over the
  limit is a \<^verbatim>\<open>MulterError\<close>, and multer removes what it wrote under the generated name.
\<close>

definition fs_message :: "string \<Rightarrow> string \<Rightarrow> string" where
  "fs_message reason p = reason @ '', open '' @ [CHR 0x27] @ p @ [CHR 0x27]"

definition single ::
  "(request \<Rightarrow> part \<Rightarrow> error + bool) \<Rightarrow> (env \<Rightarrow> part \<Rightarrow> string) \<Rightarrow>
   config \<Rightarrow> env \<Rightarrow> request \<Rightarrow> disk \<Rightarrow> (error + stored_file option) \<times> disk" where
  "single flt naming cfg e req d =
     (case image_field req of
        None \<Rightarrow> (Inr None, d)
      | Some f \<Rightarrow>
          (case flt req f of
             Inl err \<Rightarrow> (Inl err, d)
           | Inr False \<Rightarrow> (Inr None, d)
           | Inr True \<Rightarrow>
               (let name = naming e f;
                    finalPath = UPLOAD_DIR cfg @ ''/'' @ name
                in case write_error e of
                     Some reason \<Rightarrow> (Inl (Error (fs_message reason finalPath)), d)
                   | None \<Rightarrow>
                       if size_f f > MAX_FILE_SIZE
                       then (Inl (MulterError ''File too large''), d(name := None))
                       else (Inr (Some \<lparr>originalname = originalname f,
                                        mimetype = mimetype f, size_f = size_f f,
                                        filename = name, path = finalPath\<rparr>),
                             d(name \<mapsto> size_f f)))))"

section \<open>Metadata record store\<close>

text \<open>
  \<^verbatim>\<open>Image.find().sort({ createdAt: -1 })\<close>: every document of the collection, by descending
  \<^verbatim>\<open>createdAt\<close>; documents with equal dates stay in insertion order.
\<close>

definition find_sort :: "image_doc list \<Rightarrow> image_doc list" where
  "find_sort docs = sort_key (\<lambda>img. - img_createdAt img) docs"

section \<open>HTTP handlers of \<^verbatim>\<open>server.js\<close>\<close>

definition details :: "config \<Rightarrow> string \<Rightarrow> json option" where
  "details cfg msg = (if NODE_ENV cfg = ''development'' then Some (JStr msg) else None)"

text \<open>The object built for one record, by the upload handler and by the list handler.\<close>

definition projection :: "string \<Rightarrow> image_doc \<Rightarrow> json" where
  "projection url img =
     obj [(''id'', Some (JStr (img_id img))),
          (''name'', Some (JStr (img_originalname img))),
          (''url'', Some (JStr url)),
          (''size'', Some (JNum (img_size img))),
          (''uploadedAt'', Some (JDate (img_createdAt img)))]"

definition imageUrl :: "request \<Rightarrow> string \<Rightarrow> string" where
  "imageUrl req name = protocol req @ ''://'' @ host req @ ''/uploads/'' @ name"

text \<open>\<^verbatim>\<open>new Image({...})\<close> from \<^verbatim>\<open>req.file\<close>, as \<^verbatim>\<open>save()\<close> resolves it.\<close>

definition newImage :: "env \<Rightarrow> stored_file \<Rightarrow> image_doc" where
  "newImage e f =
     \<lparr>img_id = new_id e, img_filename = filename f, img_originalname = originalname f,
      img_path = path f, img_size = size_f f, img_mimetype = mimetype f,
      img_createdAt = created e\<rparr>"

text \<open>
  The handler of \<^verbatim>\<open>POST /api/upload\<close>, after the multer middleware has set \<^verbatim>\<open>req.file\<close>.
  A rejected \<^verbatim>\<open>save()\<close> is the \<^verbatim>\<open>catch\<close> branch.
\<close>

definition upload_handler ::
  "config \<Rightarrow> env \<Rightarrow> request \<Rightarrow> stored_file option \<Rightarrow> image_doc list \<Rightarrow>
   response \<times> image_doc list" where
  "upload_handler cfg e req req_file docs =
     (case req_file of
        None \<Rightarrow>
          (\<lparr>status = 400,
            body = obj [(''success'', Some (JBool False)),
                        (''error'', Some (JStr ''No file uploaded or invalid file type''))]\<rparr>,
           docs)
      | Some f \<Rightarrow>
          (case db_error e of
             Some msg \<Rightarrow>
               (\<lparr>status = 500,
                 body = obj [(''success'', Some (JBool False)),
                             (''error'', Some (JStr ''Server error during upload'')),
                             (''details'', details cfg msg)]\<rparr>,
                docs)
           | None \<Rightarrow>
               (let savedImage = newImage e f in
                (\<lparr>status = 201,
                  body = obj [(''success'', Some (JBool True)),
                              (''message'', Some (JStr ''Image uploaded successfully'')),
                              (''data'', Some (projection (imageUrl req (img_filename savedImage))
                                                 savedImage))]\<rparr>,
                 docs @ [savedImage]))))"

text \<open>The handler of \<^verbatim>\<open>GET /api/images\<close>; \<^verbatim>\<open>res.json\<close> answers with status 200.\<close>

definition images_handler :: "config \<Rightarrow> env \<Rightarrow> request \<Rightarrow> image_doc list \<Rightarrow> response" where
  "images_handler cfg e req docs =
     (case db_error e of
        Some msg \<Rightarrow>
          \<lparr>status = 500,
           body = obj [(''success'', Some (JBool False)),
                       (''error'', Some (JStr ''Failed to fetch images'')),
                       (''details'', details cfg msg)]\<rparr>
      | None \<Rightarrow>
          (let images = find_sort docs;
               response = map (\<lambda>img. projection (imageUrl req (img_filename img)) img) images
           in \<lparr>status = 200,
               body = obj [(''success'', Some (JBool True)),
                           (''count'', Some (JNum (length response))),
                           (''images'', Some (JArr response))]\<rparr>))"

definition not_found :: response where
  "not_found =
     \<lparr>status = 404,
      body = obj [(''success'', Some (JBool False)), (''error'', Some (JStr ''Endpoint not found''))]\<rparr>"

text \<open>
  The error-handling middleware; \<^verbatim>\<open>err.message || 'File upload error'\<close> takes the default
  for an empty message.
\<close>

definition error_middleware :: "config \<Rightarrow> error \<Rightarrow> response" where
  "error_middleware cfg err =
     (case err of
        MulterError m \<Rightarrow>
          \<lparr>status = 400,
           body = obj [(''success'', Some (JBool False)),
                       (''error'', Some (JStr (if m \<noteq> [] then m else ''File upload error'')))]\<rparr>
      | Error m \<Rightarrow>
          \<lparr>status = 500,
           body = obj [(''success'', Some (JBool False)),
                       (''error'', Some (JStr ''Internal server error'')),
                       (''details'', details cfg m)]\<rparr>)"

text \<open>
  The route \<^verbatim>\<open>app.post('/api/upload', upload.single('image'), handler)\<close>: an error passed
  to \<^verbatim>\<open>next\<close> skips the handler and reaches the error-handling middleware.
\<close>

definition post_upload :: "config \<Rightarrow> env \<Rightarrow> request \<Rightarrow> state \<Rightarrow> response \<times> state" where
  "post_upload cfg e req st =
     (case single fileFilter storage_filename cfg e req (files st) of
        (Inl err, d) \<Rightarrow> (error_middleware cfg err, st\<lparr>files := d\<rparr>)
      | (Inr req_file, d) \<Rightarrow>
          (let (res, docs) = upload_handler cfg e req req_file (db st)
           in (res, \<lparr>db = docs, files = d\<rparr>)))"

definition get_images :: "config \<Rightarrow> env \<Rightarrow> request \<Rightarrow> state \<Rightarrow> response" where
  "get_images cfg e req st = images_handler cfg e req (db st)"

section \<open>HTTP handlers of \<^verbatim>\<open>part_000\<close>\<close>

text \<open>This file builds URLs from \<^verbatim>\<open>config.BASE_URL\<close> and has no \<^verbatim>\<open>NODE_ENV\<close>.\<close>

definition baseUrl_p0 :: "config \<Rightarrow> string \<Rightarrow> string" where
  "baseUrl_p0 cfg name = BASE_URL cfg @ ''/uploads/'' @ name"

definition upload_handler_p0 ::
  "config \<Rightarrow> env \<Rightarrow> request \<Rightarrow> stored_file option \<Rightarrow> image_doc list \<Rightarrow>
   response \<times> image_doc list" where
  "upload_handler_p0 cfg e req req_file docs =
     (case req_file of
        None \<Rightarrow>
          (\<lparr>status = 400, body = obj [(''error'', Some (JStr ''No file uploaded''))]\<rparr>, docs)
      | Some f \<Rightarrow>
          (case db_error e of
             Some msg \<Rightarrow>
               (\<lparr>status = 500,
                 body = obj [(''success'', Some (JBool False)), (''error'', Some (JStr msg))]\<rparr>,
                docs)
           | None \<Rightarrow>
               (let savedImage = newImage e f in
                (\<lparr>status = 201,
                  body = obj [(''success'', Some (JBool True)),
                              (''message'', Some (JStr ''Image uploaded successfully'')),
                              (''image'', Some (projection (baseUrl_p0 cfg (img_filename savedImage))
                                                  savedImage))]\<rparr>,
                 docs @ [savedImage]))))"

definition images_handler_p0 :: "config \<Rightarrow> env \<Rightarrow> request \<Rightarrow> image_doc list \<Rightarrow> response" where
  "images_handler_p0 cfg e req docs =
     (case db_error e of
        Some msg \<Rightarrow>
          \<lparr>status = 500,
           body = obj [(''success'', Some (JBool False)),
                       (''error'', Some (JStr ''Failed to fetch images''))]\<rparr>
      | None \<Rightarrow>
          (let images = find_sort docs
           in \<lparr>status = 200,
               body = obj [(''success'', Some (JBool True)),
                           (''count'', Some (JNum (length images))),
                           (''images'', Some (JArr (map (\<lambda>img. projection
                                (baseUrl_p0 cfg (img_filename img)) img) images)))]\<rparr>))"

definition error_middleware_p0 :: "config \<Rightarrow> error \<Rightarrow> response" where
  "error_middleware_p0 cfg err =
     (case err of
        MulterError m \<Rightarrow>
          \<lparr>status = 400,
           body = obj [(''success'', Some (JBool False)), (''error'', Some (JStr m))]\<rparr>
      | Error m \<Rightarrow>
          \<lparr>status = 500,
           body = obj [(''success'', Some (JBool False)),
                       (''error'', Some (JStr ''Something went wrong''))]\<rparr>)"

definition post_upload_p0 :: "config \<Rightarrow> env \<Rightarrow> request \<Rightarrow> state \<Rightarrow> response \<times> state" where
  "post_upload_p0 cfg e req st =
     (case single fileFilter_p0 storage_filename_p0 cfg e req (files st) of
        (Inl err, d) \<Rightarrow> (error_middleware_p0 cfg err, st\<lparr>files := d\<rparr>)
      | (Inr req_file, d) \<Rightarrow>
          (let (res, docs) = upload_handler_p0 cfg e req req_file (db st)
           in (res, \<lparr>db = docs, files = d\<rparr>)))"

definition get_images_p0 :: "config \<Rightarrow> env \<Rightarrow> request \<Rightarrow> state \<Rightarrow> response" where
  "get_images_p0 cfg e req st = images_handler_p0 cfg e req (db st)"

section \<open>HTTP handlers of \<^verbatim>\<open>part_001\<close>\<close>

text \<open>
  This file names its uploads as \<^verbatim>\<open>part_000\<close> does, builds URLs from the request as
  \<^verbatim>\<open>server.js\<close> does, and never sends \<^verbatim>\<open>details\<close>.
\<close>

definition upload_handler_p1 ::
  "config \<Rightarrow> env \<Rightarrow> request \<Rightarrow> stored_file option \<Rightarrow> image_doc list \<Rightarrow>
   response \<times> image_doc list" where
  "upload_handler_p1 cfg e req req_file docs =
     (case req_file of
        None \<Rightarrow>
          (\<lparr>status = 400,
            body = obj [(''success'', Some (JBool False)),
                        (''error'', Some (JStr ''No file uploaded or file type not allowed''))]\<rparr>,
           docs)
      | Some f \<Rightarrow>
          (case db_error e of
             Some msg \<Rightarrow>
               (\<lparr>status = 500,
                 body = obj [(''success'', Some (JBool False)),
                             (''error'', Some (JStr ''Server error during upload''))]\<rparr>,
                docs)
           | None \<Rightarrow>
               (let savedImage = newImage e f in
                (\<lparr>status = 201,
                  body = obj [(''success'', Some (JBool True)),
                              (''message'', Some (JStr ''Image uploaded successfully'')),
                              (''data'', Some (projection (imageUrl req (img_filename savedImage))
                                                 savedImage))]\<rparr>,
                 docs @ [savedImage]))))"

definition images_handler_p1 :: "config \<Rightarrow> env \<Rightarrow> request \<Rightarrow> image_doc list \<Rightarrow> response" where
  "images_handler_p1 cfg e req docs =
     (case db_error e of
        Some msg \<Rightarrow>
          \<lparr>status = 500,
           body = obj [(''success'', Some (JBool False)),
                       (''error'', Some (JStr ''Failed to fetch images''))]\<rparr>
      | None \<Rightarrow>
          (let images = find_sort docs;
               response = map (\<lambda>img. projection (imageUrl req (img_filename img)) img) images
           in \<lparr>status = 200,
               body = obj [(''success'', Some (JBool True)),
                           (''count'', Some (JNum (length response))),
                           (''data'', Some (JArr response))]\<rparr>))"

definition error_middleware_p1 :: "config \<Rightarrow> error \<Rightarrow> response" where
  "error_middleware_p1 cfg err =
     (case err of
        MulterError m \<Rightarrow>
          \<lparr>status = 400,
           body = obj [(''success'', Some (JBool False)), (''error'', Some (JStr m))]\<rparr>
      | Error m \<Rightarrow>
          \<lparr>status = 500,
           body = obj [(''success'', Some (JBool False)),
                       (''error'', Some (JStr ''Internal server error''))]\<rparr>)"

definition post_upload_p1 :: "config \<Rightarrow> env \<Rightarrow> request \<Rightarrow> state \<Rightarrow> response \<times> state" where
  "post_upload_p1 cfg e req st =
     (case single fileFilter_p1 storage_filename_p0 cfg e req (files st) of
        (Inl err, d) \<Rightarrow> (error_middleware_p1 cfg err, st\<lparr>files := d\<rparr>)
      | (Inr req_file, d) \<Rightarrow>
          (let (res, docs) = upload_handler_p1 cfg e req req_file (db st)
           in (res, \<lparr>db = docs, files = d\<rparr>)))"

definition get_images_p1 :: "config \<Rightarrow> env \<Rightarrow> request \<Rightarrow> state \<Rightarrow> response" where
  "get_images_p1 cfg e req st = images_handler_p1 cfg e req (db st)"

section \<open>Sequences of uploads\<close>

text \<open>
  A run of upload requests, each with what it reads from outside, from a given state: the
  responses in order, and the state reached.
\<close>

fun uploads ::
  "(config \<Rightarrow> env \<Rightarrow> request \<Rightarrow> state \<Rightarrow> response \<times> state) \<Rightarrow>
   config \<Rightarrow> (env \<times> request) list \<Rightarrow> state \<Rightarrow> response list \<times> state" where
  "uploads route cfg [] st = ([], st)"
| "uploads route cfg ((e, req) # rs) st =
     (let (res, st1) = route cfg e req st;
          (ress, st2) = uploads route cfg rs st1
      in (res # ress, st2))"

definition successes :: "response list \<Rightarrow> nat" where
  "successes ress = length (filter (\<lambda>res. status res = 201) ress)"

definition initial :: state where
  "initial = \<lparr>db = [], files = Map.empty\<rparr>"

section \<open>The allow-list as the specification gives it\<close>

definition spec_allow_list :: "string set" where
  "spec_allow_list = {''image/jpeg'', ''image/png'', ''image/gif'', ''image/webp''}"

section \<open>Example inputs\<close>

definition cfg_dev :: config where
  "cfg_dev = \<lparr>NODE_ENV = ''development'', UPLOAD_DIR = ''/app/uploads'',
              BASE_URL = ''http://localhost:3001''\<rparr>"

definition cfg_prod :: config where
  "cfg_prod = \<lparr>NODE_ENV = ''production'', UPLOAD_DIR = ''/app/uploads'',
               BASE_URL = ''http://localhost:3001''\<rparr>"

definition env_ok :: env where
  "env_ok = \<lparr>now = 1700000000123, rnd = 42, new_id = ''66f1a0'', created = 1700000000130,
             db_error = None, write_error = None\<rparr>"

definition env_down :: env where
  "env_down = env_ok\<lparr>db_error := Some ''connect ECONNREFUSED 127.0.0.1:27017''\<rparr>"

definition env_disk :: env where
  "env_disk = env_ok\<lparr>write_error := Some ''EACCES: permission denied''\<rparr>"

definition photo_png :: part where
  "photo_png = \<lparr>originalname = ''photo.png'', mimetype = ''image/png'', size_f = 1024\<rparr>"

definition other_png :: part where
  "other_png = \<lparr>originalname = ''cat.png'', mimetype = ''image/png'', size_f = 2048\<rparr>"

definition notes_txt :: part where
  "notes_txt = \<lparr>originalname = ''notes.txt'', mimetype = ''text/plain'', size_f = 12\<rparr>"

definition req_with :: "part option \<Rightarrow> request" where
  "req_with f = \<lparr>protocol = ''https'', host = ''img.example.com'', image_field = f\<rparr>"

definition env_later :: env where
  "env_later = \<lparr>now = 1700000000456, rnd = 7, new_id = ''66f1a1'', created = 1700000000460,
                db_error = None, write_error = None\<rparr>"

text \<open>Three uploads in a row: a PNG, a text file, and a second PNG a moment later.\<close>

definition example_run :: "(env \<times> request) list" where
  "example_run =
     [(env_ok, req_with (Some photo_png)),
      (env_ok, req_with (Some notes_txt)),
      (env_later, req_with (Some other_png))]"

text \<open>A store with two records, the older one inserted first.\<close>

definition example_state :: state where
  "example_state =
     \<lparr>db = [\<lparr>img_id = ''66f1a0'', img_filename = ''1700000000123-42.png'',
             img_originalname = ''photo.png'', img_path = ''/app/uploads/1700000000123-42.png'',
             img_size = 1024, img_mimetype = ''image/png'', img_createdAt = 1700000000130\<rparr>,
            \<lparr>img_id = ''66f1a1'', img_filename = ''1700000000456-7.png'',
             img_originalname = ''cat.png'', img_path = ''/app/uploads/1700000000456-7.png'',
             img_size = 2048, img_mimetype = ''image/png'', img_createdAt = 1700000000460\<rparr>],
      files = [''1700000000123-42.png'' \<mapsto> 1024, ''1700000000456-7.png'' \<mapsto> 2048]\<rparr>"

section \<open>Predicates used in the proofs\<close>

text \<open>
  The characters \<open>toString\<close> produces; the characters that are neither a dot nor a
  separator; and the invariants of the scan of \<open>extname\<close>: once a dot is recorded, it is
  a dot of the name, the end is recorded too, and only plain characters lie between them.
\<close>

definition is_digit :: "char \<Rightarrow> bool" where
  "is_digit c = (\<exists>d<10. c = digit d)"

definition plain :: "char \<Rightarrow> bool" where
  "plain c = (c \<noteq> CHR ''.'' \<and> c \<noteq> CHR ''/'')"

definition ext_final :: "string \<Rightarrow> ext_state \<Rightarrow> bool" where
  "ext_final p s =
     (\<forall>sd. startDot s = Some sd \<longrightarrow>
        p ! sd = CHR ''.'' \<and>
        (\<exists>e. endp s = Some e \<and> sd < e \<and> e \<le> length p \<and>
             (\<forall>j. sd < j \<and> j < e \<longrightarrow> plain (p ! j))))"

definition ext_inv :: "string \<Rightarrow> nat \<Rightarrow> ext_state \<Rightarrow> bool" where
  "ext_inv p n s =
     (\<forall>e. endp s = Some e \<longrightarrow>
        \<not> matchedSlash s \<and> n < e \<and> e \<le> length p \<and>
        (startDot s = None \<longrightarrow> (\<forall>j. n \<le> j \<and> j < e \<longrightarrow> plain (p ! j))))"

text \<open>
  The document that a successful upload of the part \<open>f\<close> under the name \<open>name\<close> creates,
  and the object of \<open>projection\<close> written out.
\<close>

definition created_doc :: "config \<Rightarrow> env \<Rightarrow> string \<Rightarrow> part \<Rightarrow> image_doc" where
  "created_doc cfg e name f =
     \<lparr>img_id = new_id e, img_filename = name, img_originalname = originalname f,
      img_path = UPLOAD_DIR cfg @ ''/'' @ name, img_size = size_f f,
      img_mimetype = mimetype f, img_createdAt = created e\<rparr>"

definition projected :: "string \<Rightarrow> image_doc \<Rightarrow> json" where
  "projected url img =
     JObj [(''id'', JStr (img_id img)), (''name'', JStr (img_originalname img)),
           (''url'', JStr url), (''size'', JNum (img_size img)),
           (''uploadedAt'', JDate (img_createdAt img))]"

section \<open>Decimal rendering and extensions\<close>

declare toString.simps [simp del]

lemma digit_mem: "d < 10 \<Longrightarrow> digit d \<in> set ''0123456789''"
  unfolding digit_def by (rule nth_mem) simp

lemma digit_inj: "a < 10 \<Longrightarrow> b < 10 \<Longrightarrow> digit a = digit b \<Longrightarrow> a = b"
proof -
  assume a: "a < 10" and b: "b < 10" and eq: "digit a = digit b"
  have "distinct ''0123456789''" by simp
  with a b eq show ?thesis
    unfolding digit_def by (subst (asm) nth_eq_iff_index_eq) simp_all
qed

lemma digit_not_dash: "d < 10 \<Longrightarrow> digit d \<noteq> CHR ''-''"
  using digit_mem [of d] by auto

lemma digit_not_dot: "d < 10 \<Longrightarrow> digit d \<noteq> CHR ''.''"
  using digit_mem [of d] by auto

lemma digit_not_slash: "d < 10 \<Longrightarrow> digit d \<noteq> CHR ''/''"
  using digit_mem [of d] by auto

lemma toString_digits: "c \<in> set (toString n) \<Longrightarrow> is_digit c"
proof (induction n arbitrary: c rule: toString.induct)
  case (1 n)
  show ?case
  proof (cases "n < 10")
    case True
    with "1.prems" show ?thesis
      by (auto simp: toString.simps [of n] is_digit_def)
  next
    case False
    have "is_digit (digit (n mod 10))"
      unfolding is_digit_def by (rule exI [of _ "n mod 10"]) simp
    with False "1.prems" "1.IH" show ?thesis
      by (auto simp: toString.simps [of n])
  qed
qed

lemma toString_nonempty: "toString n \<noteq> []"
  by (subst toString.simps) simp

lemma toString_inj: "toString a = toString b \<Longrightarrow> a = b"
proof (induction a arbitrary: b rule: toString.induct)
  case (1 a)
  show ?case
  proof (cases "a < 10")
    case a: True
    show ?thesis
    proof (cases "b < 10")
      case True
      with a "1.prems" show ?thesis
        by (simp add: toString.simps [of a] toString.simps [of b] digit_inj)
    next
      case False
      with a "1.prems" toString_nonempty [of "b div 10"] show ?thesis
        by (simp add: toString.simps [of a] toString.simps [of b])
    qed
  next
    case a: False
    show ?thesis
    proof (cases "b < 10")
      case True
      with a "1.prems" toString_nonempty [of "a div 10"] show ?thesis
        by (simp add: toString.simps [of a] toString.simps [of b])
    next
      case False
      with a "1.prems" have eq: "toString (a div 10) = toString (b div 10)"
        and d: "digit (a mod 10) = digit (b mod 10)"
        by (simp_all add: toString.simps [of a] toString.simps [of b])
      from "1.IH" [OF a eq] have "a div 10 = b div 10" .
      moreover from d have "a mod 10 = b mod 10"
        by (intro digit_inj) simp_all
      ultimately show ?thesis
        by (metis div_mult_mod_eq)
    qed
  qed
qed


lemma not_digit_dash: "\<not> is_digit CHR ''-''"
  unfolding is_digit_def using digit_not_dash by metis

lemma not_digit_dot: "\<not> is_digit CHR ''.''"
  unfolding is_digit_def using digit_not_dot by metis

lemma extname_loop_final:
  "n \<le> length p \<Longrightarrow> ext_final p s \<Longrightarrow> ext_inv p n s \<Longrightarrow> ext_final p (extname_loop p n s)"
proof (induction n arbitrary: s)
  case 0
  then show ?case by simp
next
  case (Suc i)
  show ?case
  proof (cases "p ! i = CHR ''/''")
    case True
    show ?thesis
    proof (cases "matchedSlash s")
      case m: True
      with Suc.prems(3) have "endp s = None"
        by (cases "endp s") (auto simp: ext_inv_def)
      then have "ext_inv p i s"
        by (simp add: ext_inv_def)
      with Suc.prems have "ext_final p (extname_loop p i s)"
        by (intro Suc.IH) auto
      with m True show ?thesis by simp
    next
      case False
      with True Suc.prems(2) show ?thesis by (simp add: ext_final_def)
    qed
  next
    case False
    define s1 where "s1 = (if endp s = None then s\<lparr>endp := Some (i + 1), matchedSlash := False\<rparr> else s)"
    define s2 where "s2 = (if p ! i = CHR ''.'' then
                     (if startDot s1 = None then s1\<lparr>startDot := Some i\<rparr>
                      else if preDotState s1 \<noteq> 1 then s1\<lparr>preDotState := 1\<rparr>
                      else s1)
                   else if startDot s1 \<noteq> None then s1\<lparr>preDotState := - 1\<rparr>
                   else s1)"
    have step: "extname_loop p (Suc i) s = extname_loop p i s2"
      using False by (simp add: s1_def s2_def Let_def)
    have i1: "ext_inv p (Suc i) s1 \<or> (endp s1 = Some (Suc i) \<and> \<not> matchedSlash s1)"
      using Suc.prems(3) by (auto simp: s1_def)
    have e1: "endp s1 \<noteq> None"
      by (auto simp: s1_def)
    have d1: "startDot s1 = startDot s"
      by (simp add: s1_def)
    have f1: "ext_final p s1"
      using Suc.prems(2) by (auto simp: s1_def ext_final_def)
    have i2: "ext_inv p i s2"
    proof -
      have "plain (p ! j)" if "startDot s2 = None" "endp s2 = Some e" "i \<le> j" "j < e" for e j
      proof (cases "j = i")
        case True
        with that(1) False e1 show ?thesis
          by (auto simp: s2_def plain_def split: if_splits)
      next
        case False
        with that i1 show ?thesis
          by (auto simp: s2_def ext_inv_def split: if_splits)
      qed
      moreover have "\<not> matchedSlash s2 \<and> i < e \<and> e \<le> length p" if "endp s2 = Some e" for e
        using that i1 Suc.prems(1) by (auto simp: s2_def ext_inv_def split: if_splits)
      ultimately show ?thesis
        unfolding ext_inv_def by blast
    qed
    have f2: "ext_final p s2"
    proof (cases "p ! i = CHR ''.'' \<and> startDot s1 = None")
      case True
      then have s2: "s2 = s1\<lparr>startDot := Some i\<rparr>"
        by (simp add: s2_def)
      from i1 e1 True Suc.prems(1) show ?thesis
        unfolding s2 ext_final_def ext_inv_def by (auto simp: less_Suc_eq_le Suc_le_eq)
    next
      case False
      then have "startDot s2 = startDot s1" "endp s2 = endp s1"
        by (auto simp: s2_def)
      with f1 show ?thesis
        by (simp add: ext_final_def)
    qed
    have "ext_final p (extname_loop p i s2)"
      using Suc.prems(1) f2 i2 by (intro Suc.IH) auto
    with step show ?thesis by simp
  qed
qed

lemma extname_shape:
  "extname p = [] \<or> (\<exists>r. extname p = CHR ''.'' # r \<and> (\<forall>c\<in>set r. plain c))"
proof -
  define s where "s = extname_loop p (length p) ext_init"
  have fin: "ext_final p s"
    unfolding s_def
    by (rule extname_loop_final) (simp_all add: ext_final_def ext_inv_def ext_init_def)
  show ?thesis
  proof (cases "extname p = []")
    case True
    then show ?thesis by simp
  next
    case False
    then obtain sd e where sd: "startDot s = Some sd" and e: "endp s = Some e"
      and ex: "extname p = take (e - sd) (drop sd p)"
      by (auto simp: extname_def s_def [symmetric] Let_def split: option.splits if_splits)
    from fin sd e have le: "e \<le> length p" and dot: "p ! sd = CHR ''.''" and lt: "sd < e"
      and pl: "\<And>j. sd < j \<Longrightarrow> j < e \<Longrightarrow> plain (p ! j)"
      by (auto simp: ext_final_def)
    define r where "r = take (e - sd - 1) (drop (Suc sd) p)"
    from le dot lt have "take (e - sd) (drop sd p) = CHR ''.'' # r"
      unfolding r_def by (cases "e - sd") (auto simp: Cons_nth_drop_Suc [symmetric])
    moreover have "plain c" if "c \<in> set r" for c
    proof -
      from that obtain k where k: "k < length r" "c = r ! k"
        by (auto simp: in_set_conv_nth)
      with le lt have "k < e - sd - 1" "c = p ! (Suc sd + k)"
        by (auto simp: r_def)
      with pl [of "Suc sd + k"] show ?thesis by auto
    qed
    ultimately show ?thesis using ex by auto
  qed
qed

lemma extname_dot: "extname p = [] \<or> (\<exists>r. extname p = CHR ''.'' # r)"
  using extname_shape [of p] by auto

lemma extname_no_digit_head: "extname p = [] \<or> \<not> is_digit (hd (extname p))"
  using extname_dot [of p] not_digit_dot by auto

lemma split_sep:
  assumes "\<forall>c\<in>set xs. P c" "\<forall>c\<in>set xs'. P c" "\<not> P sep" "xs @ sep # ys = xs' @ sep # ys'"
  shows "xs = xs' \<and> ys = ys'"
proof -
  have "takeWhile P (xs @ sep # ys) = xs" "takeWhile P (xs' @ sep # ys') = xs'"
    using assms(1-3) by (simp_all add: takeWhile_tail)
  with assms(4) have "xs = xs'" by simp
  with assms(4) show ?thesis by simp
qed

lemma split_tail:
  assumes "\<forall>c\<in>set xs. P c" "\<forall>c\<in>set xs'. P c" "ys = [] \<or> \<not> P (hd ys)" "ys' = [] \<or> \<not> P (hd ys')"
    "xs @ ys = xs' @ ys'"
  shows "xs = xs' \<and> ys = ys'"
proof -
  have a: "takeWhile P (xs @ ys) = xs"
    using assms(1,3) by (cases ys) (simp_all add: takeWhile_tail)
  have b: "takeWhile P (xs' @ ys') = xs'"
    using assms(2,4) by (cases ys') (simp_all add: takeWhile_tail)
  from a b assms(5) have "xs = xs'" by simp
  with assms(5) show ?thesis by simp
qed

lemma storage_filename_eq_iff:
  "storage_filename e1 f1 = storage_filename e2 f2 \<longleftrightarrow>
     now e1 = now e2 \<and> rnd e1 = rnd e2 \<and> extname (originalname f1) = extname (originalname f2)"
proof
  assume eq: "storage_filename e1 f1 = storage_filename e2 f2"
  then have "toString (now e1) @ CHR ''-'' # (toString (rnd e1) @ extname (originalname f1)) =
             toString (now e2) @ CHR ''-'' # (toString (rnd e2) @ extname (originalname f2))"
    by (simp add: storage_filename_def)
  then have n: "toString (now e1) = toString (now e2)"
    and r: "toString (rnd e1) @ extname (originalname f1) = toString (rnd e2) @ extname (originalname f2)"
    using split_sep [where P = is_digit and sep = "CHR ''-''"] toString_digits not_digit_dash
    by blast+
  from r have "toString (rnd e1) = toString (rnd e2) \<and>
      extname (originalname f1) = extname (originalname f2)"
    using split_tail [where P = is_digit] toString_digits extname_no_digit_head by blast
  with n show "now e1 = now e2 \<and> rnd e1 = rnd e2 \<and>
      extname (originalname f1) = extname (originalname f2)"
    by (auto dest: toString_inj)
next
  assume "now e1 = now e2 \<and> rnd e1 = rnd e2 \<and>
      extname (originalname f1) = extname (originalname f2)"
  then show "storage_filename e1 f1 = storage_filename e2 f2"
    by (simp add: storage_filename_def)
qed

lemma storage_filename_p0_eq_iff:
  "storage_filename_p0 e1 f1 = storage_filename_p0 e2 f2 \<longleftrightarrow>
     now e1 = now e2 \<and> extname (originalname f1) = extname (originalname f2)"
proof
  assume eq: "storage_filename_p0 e1 f1 = storage_filename_p0 e2 f2"
  then have "toString (now e1) @ extname (originalname f1) =
             toString (now e2) @ extname (originalname f2)"
    by (simp add: storage_filename_p0_def)
  then have "toString (now e1) = toString (now e2) \<and>
      extname (originalname f1) = extname (originalname f2)"
    using split_tail [where P = is_digit] toString_digits extname_no_digit_head by blast
  then show "now e1 = now e2 \<and> extname (originalname f1) = extname (originalname f2)"
    by (auto dest: toString_inj)
next
  assume "now e1 = now e2 \<and> extname (originalname f1) = extname (originalname f2)"
  then show "storage_filename_p0 e1 f1 = storage_filename_p0 e2 f2"
    by (simp add: storage_filename_p0_def)
qed

lemma scan_after_dot:
  "startDot s \<noteq> None \<Longrightarrow> endp s \<noteq> None \<Longrightarrow> (\<forall>j<n. plain (p ! j)) \<Longrightarrow> 0 < n \<Longrightarrow>
   extname_loop p n s = s\<lparr>preDotState := - 1\<rparr>"
proof (induction n arbitrary: s)
  case 0
  then show ?case by simp
next
  case (Suc i)
  from Suc.prems have step: "extname_loop p (Suc i) s = extname_loop p i (s\<lparr>preDotState := - 1\<rparr>)"
    by (auto simp: plain_def Let_def)
  show ?case
  proof (cases i)
    case 0
    with step show ?thesis by simp
  next
    case (Suc k)
    with Suc.prems have "extname_loop p i (s\<lparr>preDotState := - 1\<rparr>) =
        s\<lparr>preDotState := - 1\<rparr>\<lparr>preDotState := - 1\<rparr>"
      by (intro Suc.IH) auto
    with step show ?thesis by simp
  qed
qed

lemma scan_before_dot:
  "startDot s = None \<Longrightarrow> endp s \<noteq> None \<Longrightarrow> (\<forall>j. k \<le> j \<and> j < k + m \<longrightarrow> plain (p ! j)) \<Longrightarrow>
   extname_loop p (k + m) s = extname_loop p k s"
proof (induction m arbitrary: s)
  case 0
  then show ?case by simp
next
  case (Suc m)
  from Suc.prems have "plain (p ! (k + m))" by simp
  with Suc.prems(1,2) have "extname_loop p (Suc (k + m)) s = extname_loop p (k + m) s"
    by (auto simp: plain_def Let_def)
  moreover from Suc.prems have "extname_loop p (k + m) s = extname_loop p k s"
    by (intro Suc.IH) auto
  ultimately show ?case by simp
qed

lemma scan_first:
  assumes "startDot s = None" "endp s = None" "\<forall>j. k \<le> j \<and> j < k + m \<longrightarrow> plain (p ! j)" "0 < m"
  shows "extname_loop p (k + m) s =
         extname_loop p k (s\<lparr>endp := Some (k + m), matchedSlash := False\<rparr>)"
proof -
  from assms(4) obtain m' where m: "m = Suc m'" by (cases m) auto
  with assms(3) have "plain (p ! (k + m'))" by simp
  with assms(1,2) have "extname_loop p (Suc (k + m')) s =
      extname_loop p (k + m') (s\<lparr>endp := Some (k + m' + 1), matchedSlash := False\<rparr>)"
    by (auto simp: plain_def Let_def)
  moreover have "extname_loop p (k + m') (s\<lparr>endp := Some (k + m' + 1), matchedSlash := False\<rparr>) =
      extname_loop p k (s\<lparr>endp := Some (k + m' + 1), matchedSlash := False\<rparr>)"
    using assms(1,3) m by (intro scan_before_dot) auto
  ultimately show ?thesis using m by simp
qed

lemma extname_plain:
  assumes "\<forall>c\<in>set d. plain c"
  shows "extname d = []"
proof (cases "d = []")
  case True
  then show ?thesis by (simp add: extname_def ext_init_def)
next
  case False
  have "extname_loop d (0 + length d) ext_init =
      extname_loop d 0 (ext_init\<lparr>endp := Some (0 + length d), matchedSlash := False\<rparr>)"
    using assms False by (intro scan_first) (auto simp: ext_init_def)
  then show ?thesis by (simp add: extname_def ext_init_def)
qed

lemma extname_append_ext:
  assumes d: "d \<noteq> []" "\<forall>c\<in>set d. plain c" and r: "\<forall>c\<in>set r. plain c"
  shows "extname (d @ CHR ''.'' # r) = CHR ''.'' # r"
proof -
  define p where "p = d @ CHR ''.'' # r"
  define k where "k = Suc (length d)"
  have len: "length p = k + length r"
    by (simp add: p_def k_def)
  have pr: "\<forall>j. k \<le> j \<and> j < k + length r \<longrightarrow> plain (p ! j)"
    using r by (auto simp: p_def k_def nth_append nth_Cons split: nat.splits)
  have pd: "\<forall>j<length d. plain (p ! j)"
    using d(2) by (auto simp: p_def nth_append)
  have dot: "p ! length d = CHR ''.''"
    by (simp add: p_def)
  define s0 where "s0 = ext_init\<lparr>endp := Some (length p), matchedSlash := False\<rparr>"
  have a: "extname_loop p (length p) ext_init = extname_loop p (length d) (s0\<lparr>startDot := Some (length d)\<rparr>)"
  proof (cases "r = []")
    case True
    then have "length p = Suc (length d)" by (simp add: p_def)
    with dot show ?thesis
      by (simp add: s0_def ext_init_def Let_def)
  next
    case False
    have "extname_loop p (k + length r) ext_init = extname_loop p k s0"
      unfolding s0_def len using pr False by (intro scan_first) (auto simp: ext_init_def)
    moreover have "extname_loop p k s0 = extname_loop p (length d) (s0\<lparr>startDot := Some (length d)\<rparr>)"
      using dot by (simp add: k_def s0_def ext_init_def Let_def)
    ultimately show ?thesis by (simp add: len)
  qed
  have b: "extname_loop p (length d) (s0\<lparr>startDot := Some (length d)\<rparr>) =
      s0\<lparr>startDot := Some (length d)\<rparr>\<lparr>preDotState := - 1\<rparr>"
    using pd d(1) by (intro scan_after_dot) (auto simp: s0_def)
  have "extname p = take (length p - length d) (drop (length d) p)"
    by (simp add: extname_def a b Let_def) (simp add: s0_def ext_init_def)
  then show ?thesis
    by (simp add: p_def)
qed

lemma extname_generated:
  assumes "d \<noteq> []" "\<forall>c\<in>set d. plain c"
  shows "extname (d @ extname q) = extname q"
proof -
  from extname_shape [of q] consider "extname q = []"
    | r where "extname q = CHR ''.'' # r" "\<forall>c\<in>set r. plain c"
    by blast
  then show ?thesis
  proof cases
    case 1
    with assms show ?thesis by (simp add: extname_plain)
  next
    case 2
    with assms show ?thesis by (simp add: extname_append_ext)
  qed
qed

lemma digit_plain: "is_digit c \<Longrightarrow> plain c"
proof -
  assume "is_digit c"
  then obtain d where "d < 10" "c = digit d" by (auto simp: is_digit_def)
  with digit_not_dot [of d] digit_not_slash [of d] show ?thesis by (simp add: plain_def)
qed

lemma extname_storage_filename:
  "extname (storage_filename e f) = extname (originalname f)"
proof -
  have "extname ((toString (now e) @ ''-'' @ toString (rnd e)) @ extname (originalname f)) =
      extname (originalname f)"
    using toString_nonempty toString_digits digit_plain
    by (intro extname_generated) (auto simp: plain_def)
  then show ?thesis by (simp add: storage_filename_def)
qed

lemma extname_storage_filename_p0:
  "extname (storage_filename_p0 e f) = extname (originalname f)"
proof -
  have "extname ((''img-'' @ toString (now e)) @ extname (originalname f)) =
      extname (originalname f)"
    using toString_digits digit_plain
    by (intro extname_generated) (auto simp: plain_def)
  then show ?thesis by (simp add: storage_filename_p0_def)
qed

section \<open>Evaluation of the example inputs\<close>

lemma toString_examples:
  "toString 1700000000123 = ''1700000000123''" "toString 42 = ''42''"
  by (simp_all add: toString.simps digit_def)

lemma extname_examples:
  "extname ''photo.png'' = ''.png''" "extname ''cat.png'' = ''.png''"
  "extname ''notes.txt'' = ''.txt''"
  by code_simp+

lemma storage_filename_examples:
  "storage_filename env_ok photo_png = ''1700000000123-42.png''"
  "storage_filename env_ok other_png = ''1700000000123-42.png''"
  "storage_filename_p0 env_ok photo_png = ''img-1700000000123.png''"
  "storage_filename_p0 env_ok other_png = ''img-1700000000123.png''"
  by (simp_all add: storage_filename_def storage_filename_p0_def env_ok_def photo_png_def
      other_png_def toString_examples extname_examples)

lemma allowed_iff: "mimetype f \<in> set allowedTypes \<longleftrightarrow> mimetype f \<in> spec_allow_list"
  by (simp add: allowedTypes_def spec_allow_list_def)

section \<open>Case analysis of the routes\<close>

text \<open>The six ways an upload request can go, by what it carries and what it reads.\<close>

lemma upload_cases:
  obtains (no_file) "image_field req = None"
  | (rejected) f where "image_field req = Some f" "mimetype f \<notin> spec_allow_list"
  | (write_failed) f reason where "image_field req = Some f" "mimetype f \<in> spec_allow_list"
      "write_error e = Some reason"
  | (too_large) f where "image_field req = Some f" "mimetype f \<in> spec_allow_list"
      "write_error e = None" "MAX_FILE_SIZE < size_f f"
  | (save_failed) f msg where "image_field req = Some f" "mimetype f \<in> spec_allow_list"
      "write_error e = None" "size_f f \<le> MAX_FILE_SIZE" "db_error e = Some msg"
  | (created) f where "image_field req = Some f" "mimetype f \<in> spec_allow_list"
      "write_error e = None" "size_f f \<le> MAX_FILE_SIZE" "db_error e = None"
proof (cases "image_field req")
  case None
  then show ?thesis by (rule no_file)
next
  case (Some f)
  show ?thesis
  proof (cases "mimetype f \<in> spec_allow_list")
    case False
    with Some show ?thesis by (rule rejected)
  next
    case ok: True
    show ?thesis
    proof (cases "write_error e")
      case (Some reason)
      with \<open>image_field req = Some f\<close> ok show ?thesis by (rule write_failed)
    next
      case w: None
      show ?thesis
      proof (cases "size_f f \<le> MAX_FILE_SIZE")
        case False
        with \<open>image_field req = Some f\<close> ok w show ?thesis by (intro too_large) auto
      next
        case sz: True
        show ?thesis
        proof (cases "db_error e")
          case None
          with \<open>image_field req = Some f\<close> ok w sz show ?thesis by (rule created)
        next
          case (Some msg)
          with \<open>image_field req = Some f\<close> ok w sz show ?thesis by (rule save_failed)
        qed
      qed
    qed
  qed
qed

subsection \<open>The multer middleware\<close>

lemma single_no_file:
  "image_field req = None \<Longrightarrow> single flt naming cfg e req d = (Inr None, d)"
  by (simp add: single_def)

lemma projection_projected: "projection url img = projected url img"
  by (simp add: projection_def projected_def obj_def)

subsection \<open>The upload route of \<^verbatim>\<open>server.js\<close>\<close>

lemma post_upload_no_file:
  "image_field req = None \<Longrightarrow>
   post_upload cfg e req st =
     (\<lparr>status = 400,
       body = JObj [(''success'', JBool False), (''error'', JStr ''No file uploaded or invalid file type'')]\<rparr>, st)"
  by (simp add: post_upload_def single_no_file upload_handler_def obj_def)

lemma post_upload_rejected:
  "image_field req = Some f \<Longrightarrow> mimetype f \<notin> spec_allow_list \<Longrightarrow>
   post_upload cfg e req st =
     (\<lparr>status = 500,
       body = obj [(''success'', Some (JBool False)),
                   (''error'', Some (JStr ''Internal server error'')),
                   (''details'', details cfg
                      ''Invalid file type. Only images are allowed (JPEG, PNG, GIF, WEBP)'')]\<rparr>,
      st)"
  by (simp add: post_upload_def single_def fileFilter_def allowed_iff
      error_middleware_def)

lemma post_upload_write_failed:
  "image_field req = Some f \<Longrightarrow> mimetype f \<in> spec_allow_list \<Longrightarrow>
   write_error e = Some reason \<Longrightarrow>
   post_upload cfg e req st =
     (\<lparr>status = 500,
       body = obj [(''success'', Some (JBool False)),
                   (''error'', Some (JStr ''Internal server error'')),
                   (''details'', details cfg
                      (fs_message reason (UPLOAD_DIR cfg @ ''/'' @ storage_filename e f)))]\<rparr>,
      st)"
  by (simp add: post_upload_def single_def fileFilter_def allowed_iff
      error_middleware_def Let_def)

lemma post_upload_too_large:
  "image_field req = Some f \<Longrightarrow> mimetype f \<in> spec_allow_list \<Longrightarrow>
   write_error e = None \<Longrightarrow> MAX_FILE_SIZE < size_f f \<Longrightarrow>
   post_upload cfg e req st =
     (\<lparr>status = 400,
       body = JObj [(''success'', JBool False), (''error'', JStr ''File too large'')]\<rparr>,
      st\<lparr>files := (files st)(storage_filename e f := None)\<rparr>)"
  by (simp add: post_upload_def single_def fileFilter_def allowed_iff
      error_middleware_def obj_def Let_def)

lemma post_upload_save_failed:
  "image_field req = Some f \<Longrightarrow> mimetype f \<in> spec_allow_list \<Longrightarrow>
   write_error e = None \<Longrightarrow> size_f f \<le> MAX_FILE_SIZE \<Longrightarrow> db_error e = Some msg \<Longrightarrow>
   post_upload cfg e req st =
     (\<lparr>status = 500,
       body = obj [(''success'', Some (JBool False)),
                   (''error'', Some (JStr ''Server error during upload'')),
                   (''details'', details cfg msg)]\<rparr>,
      \<lparr>db = db st, files = (files st)(storage_filename e f \<mapsto> size_f f)\<rparr>)"
  by (simp add: post_upload_def single_def fileFilter_def allowed_iff
      upload_handler_def Let_def)

lemma post_upload_created:
  "image_field req = Some f \<Longrightarrow> mimetype f \<in> spec_allow_list \<Longrightarrow>
   write_error e = None \<Longrightarrow> size_f f \<le> MAX_FILE_SIZE \<Longrightarrow> db_error e = None \<Longrightarrow>
   post_upload cfg e req st =
     (\<lparr>status = 201,
       body = JObj [(''success'', JBool True),
                    (''message'', JStr ''Image uploaded successfully''),
                    (''data'', projected (imageUrl req (storage_filename e f))
                                (created_doc cfg e (storage_filename e f) f))]\<rparr>,
      \<lparr>db = db st @ [created_doc cfg e (storage_filename e f) f],
       files = (files st)(storage_filename e f \<mapsto> size_f f)\<rparr>)"
  by (simp add: post_upload_def single_def fileFilter_def allowed_iff upload_handler_def
      newImage_def created_doc_def projection_projected obj_def Let_def)

lemma post_upload_201:
  assumes "post_upload cfg e req st = (res, st')" "status res = 201"
  shows "\<exists>f. image_field req = Some f \<and> mimetype f \<in> spec_allow_list \<and>
             write_error e = None \<and> size_f f \<le> MAX_FILE_SIZE \<and> db_error e = None"
proof (cases rule: upload_cases [where req = req and e = e])
  case no_file
  with assms post_upload_no_file [OF no_file, of cfg e st] show ?thesis by auto
next
  case (rejected f)
  with assms post_upload_rejected [OF rejected, of cfg e st] show ?thesis by auto
next
  case (write_failed f reason)
  with assms post_upload_write_failed [OF write_failed, of cfg st] show ?thesis by auto
next
  case (too_large f)
  with assms post_upload_too_large [OF too_large, of cfg st] show ?thesis by auto
next
  case (save_failed f msg)
  with assms post_upload_save_failed [OF save_failed, of cfg st] show ?thesis by auto
next
  case (created f)
  then show ?thesis by simp
qed

lemma post_upload_db:
  assumes "post_upload cfg e req st = (res, st')"
  shows "length (db st') = length (db st) + (if status res = 201 then 1 else 0)"
proof (cases rule: upload_cases [where req = req and e = e])
  case no_file
  with assms post_upload_no_file [OF no_file, of cfg e st] show ?thesis by auto
next
  case (rejected f)
  with assms post_upload_rejected [OF rejected, of cfg e st] show ?thesis by auto
next
  case (write_failed f reason)
  with assms post_upload_write_failed [OF write_failed, of cfg st] show ?thesis by auto
next
  case (too_large f)
  with assms post_upload_too_large [OF too_large, of cfg st] show ?thesis by auto
next
  case (save_failed f msg)
  with assms post_upload_save_failed [OF save_failed, of cfg st] show ?thesis by auto
next
  case (created f)
  with assms post_upload_created [OF created, of cfg st] show ?thesis by auto
qed

subsection \<open>The upload route of \<^verbatim>\<open>part_000\<close>\<close>

lemma post_upload_p0_no_file:
  "image_field req = None \<Longrightarrow>
   post_upload_p0 cfg e req st =
     (\<lparr>status = 400,
       body = JObj [(''error'', JStr ''No file uploaded'')]\<rparr>, st)"
  by (simp add: post_upload_p0_def single_no_file upload_handler_p0_def obj_def)

lemma post_upload_p0_rejected:
  "image_field req = Some f \<Longrightarrow> mimetype f \<notin> spec_allow_list \<Longrightarrow>
   post_upload_p0 cfg e req st =
     (\<lparr>status = 500,
       body = JObj [(''success'', JBool False), (''error'', JStr ''Something went wrong'')]\<rparr>,
      st)"
  by (simp add: post_upload_p0_def single_def fileFilter_p0_def allowed_iff
      error_middleware_p0_def obj_def)

lemma post_upload_p0_write_failed:
  "image_field req = Some f \<Longrightarrow> mimetype f \<in> spec_allow_list \<Longrightarrow>
   write_error e = Some reason \<Longrightarrow>
   post_upload_p0 cfg e req st =
     (\<lparr>status = 500,
       body = JObj [(''success'', JBool False), (''error'', JStr ''Something went wrong'')]\<rparr>,
      st)"
  by (simp add: post_upload_p0_def single_def fileFilter_p0_def allowed_iff
      error_middleware_p0_def Let_def obj_def)

lemma post_upload_p0_too_large:
  "image_field req = Some f \<Longrightarrow> mimetype f \<in> spec_allow_list \<Longrightarrow>
   write_error e = None \<Longrightarrow> MAX_FILE_SIZE < size_f f \<Longrightarrow>
   post_upload_p0 cfg e req st =
     (\<lparr>status = 400,
       body = JObj [(''success'', JBool False), (''error'', JStr ''File too large'')]\<rparr>,
      st\<lparr>files := (files st)(storage_filename_p0 e f := None)\<rparr>)"
  by (simp add: post_upload_p0_def single_def fileFilter_p0_def allowed_iff
      error_middleware_p0_def obj_def Let_def)

lemma post_upload_p0_save_failed:
  "image_field req = Some f \<Longrightarrow> mimetype f \<in> spec_allow_list \<Longrightarrow>
   write_error e = None \<Longrightarrow> size_f f \<le> MAX_FILE_SIZE \<Longrightarrow> db_error e = Some msg \<Longrightarrow>
   post_upload_p0 cfg e req st =
     (\<lparr>status = 500,
       body = JObj [(''success'', JBool False), (''error'', JStr msg)]\<rparr>,
      \<lparr>db = db st, files = (files st)(storage_filename_p0 e f \<mapsto> size_f f)\<rparr>)"
  by (simp add: post_upload_p0_def single_def fileFilter_p0_def allowed_iff
      upload_handler_p0_def Let_def obj_def)

lemma post_upload_p0_created:
  "image_field req = Some f \<Longrightarrow> mimetype f \<in> spec_allow_list \<Longrightarrow>
   write_error e = None \<Longrightarrow> size_f f \<le> MAX_FILE_SIZE \<Longrightarrow> db_error e = None \<Longrightarrow>
   post_upload_p0 cfg e req st =
     (\<lparr>status = 201,
       body = JObj [(''success'', JBool True),
                    (''message'', JStr ''Image uploaded successfully''),
                    (''image'', projected (baseUrl_p0 cfg (storage_filename_p0 e f))
                                (created_doc cfg e (storage_filename_p0 e f) f))]\<rparr>,
      \<lparr>db = db st @ [created_doc cfg e (storage_filename_p0 e f) f],
       files = (files st)(storage_filename_p0 e f \<mapsto> size_f f)\<rparr>)"
  by (simp add: post_upload_p0_def single_def fileFilter_p0_def allowed_iff upload_handler_p0_def
      newImage_def created_doc_def projection_projected obj_def Let_def)

lemma post_upload_p0_201:
  assumes "post_upload_p0 cfg e req st = (res, st')" "status res = 201"
  shows "\<exists>f. image_field req = Some f \<and> mimetype f \<in> spec_allow_list \<and>
             write_error e = None \<and> size_f f \<le> MAX_FILE_SIZE \<and> db_error e = None"
proof (cases rule: upload_cases [where req = req and e = e])
  case no_file
  with assms post_upload_p0_no_file [OF no_file, of cfg e st] show ?thesis by auto
next
  case (rejected f)
  with assms post_upload_p0_rejected [OF rejected, of cfg e st] show ?thesis by auto
next
  case (write_failed f reason)
  with assms post_upload_p0_write_failed [OF write_failed, of cfg st] show ?thesis by auto
next
  case (too_large f)
  with assms post_upload_p0_too_large [OF too_large, of cfg st] show ?thesis by auto
next
  case (save_failed f msg)
  with assms post_upload_p0_save_failed [OF save_failed, of cfg st] show ?thesis by auto
next
  case (created f)
  then show ?thesis by simp
qed

lemma post_upload_p0_db:
  assumes "post_upload_p0 cfg e req st = (res, st')"
  shows "length (db st') = length (db st) + (if status res = 201 then 1 else 0)"
proof (cases rule: upload_cases [where req = req and e = e])
  case no_file
  with assms post_upload_p0_no_file [OF no_file, of cfg e st] show ?thesis by auto
next
  case (rejected f)
  with assms post_upload_p0_rejected [OF rejected, of cfg e st] show ?thesis by auto
next
  case (write_failed f reason)
  with assms post_upload_p0_write_failed [OF write_failed, of cfg st] show ?thesis by auto
next
  case (too_large f)
  with assms post_upload_p0_too_large [OF too_large, of cfg st] show ?thesis by auto
next
  case (save_failed f msg)
  with assms post_upload_p0_save_failed [OF save_failed, of cfg st] show ?thesis by auto
next
  case (created f)
  with assms post_upload_p0_created [OF created, of cfg st] show ?thesis by auto
qed

subsection \<open>The upload route of \<^verbatim>\<open>part_001\<close>\<close>

lemma post_upload_p1_no_file:
  "image_field req = None \<Longrightarrow>
   post_upload_p1 cfg e req st =
     (\<lparr>status = 400,
       body = JObj [(''success'', JBool False), (''error'', JStr ''No file uploaded or file type not allowed'')]\<rparr>, st)"
  by (simp add: post_upload_p1_def single_no_file upload_handler_p1_def obj_def)

lemma post_upload_p1_rejected:
  "image_field req = Some f \<Longrightarrow> mimetype f \<notin> spec_allow_list \<Longrightarrow>
   post_upload_p1 cfg e req st =
     (\<lparr>status = 500,
       body = JObj [(''success'', JBool False), (''error'', JStr ''Internal server error'')]\<rparr>,
      st)"
  by (simp add: post_upload_p1_def single_def fileFilter_p1_def allowed_iff
      error_middleware_p1_def obj_def)

lemma post_upload_p1_write_failed:
  "image_field req = Some f \<Longrightarrow> mimetype f \<in> spec_allow_list \<Longrightarrow>
   write_error e = Some reason \<Longrightarrow>
   post_upload_p1 cfg e req st =
     (\<lparr>status = 500,
       body = JObj [(''success'', JBool False), (''error'', JStr ''Internal server error'')]\<rparr>,
      st)"
  by (simp add: post_upload_p1_def single_def fileFilter_p1_def allowed_iff
      error_middleware_p1_def Let_def obj_def)

lemma post_upload_p1_too_large:
  "image_field req = Some f \<Longrightarrow> mimetype f \<in> spec_allow_list \<Longrightarrow>
   write_error e = None \<Longrightarrow> MAX_FILE_SIZE < size_f f \<Longrightarrow>
   post_upload_p1 cfg e req st =
     (\<lparr>status = 400,
       body = JObj [(''success'', JBool False), (''error'', JStr ''File too large'')]\<rparr>,
      st\<lparr>files := (files st)(storage_filename_p0 e f := None)\<rparr>)"
  by (simp add: post_upload_p1_def single_def fileFilter_p1_def allowed_iff
      error_middleware_p1_def obj_def Let_def)

lemma post_upload_p1_save_failed:
  "image_field req = Some f \<Longrightarrow> mimetype f \<in> spec_allow_list \<Longrightarrow>
   write_error e = None \<Longrightarrow> size_f f \<le> MAX_FILE_SIZE \<Longrightarrow> db_error e = Some msg \<Longrightarrow>
   post_upload_p1 cfg e req st =
     (\<lparr>status = 500,
       body = JObj [(''success'', JBool False), (''error'', JStr ''Server error during upload'')]\<rparr>,
      \<lparr>db = db st, files = (files st)(storage_filename_p0 e f \<mapsto> size_f f)\<rparr>)"
  by (simp add: post_upload_p1_def single_def fileFilter_p1_def allowed_iff
      upload_handler_p1_def Let_def obj_def)

lemma post_upload_p1_created:
  "image_field req = Some f \<Longrightarrow> mimetype f \<in> spec_allow_list \<Longrightarrow>
   write_error e = None \<Longrightarrow> size_f f \<le> MAX_FILE_SIZE \<Longrightarrow> db_error e = None \<Longrightarrow>
   post_upload_p1 cfg e req st =
     (\<lparr>status = 201,
       body = JObj [(''success'', JBool True),
                    (''message'', JStr ''Image uploaded successfully''),
                    (''data'', projected (imageUrl req (storage_filename_p0 e f))
                                (created_doc cfg e (storage_filename_p0 e f) f))]\<rparr>,
      \<lparr>db = db st @ [created_doc cfg e (storage_filename_p0 e f) f],
       files = (files st)(storage_filename_p0 e f \<mapsto> size_f f)\<rparr>)"
  by (simp add: post_upload_p1_def single_def fileFilter_p1_def allowed_iff upload_handler_p1_def
      newImage_def created_doc_def projection_projected obj_def Let_def)

lemma post_upload_p1_201:
  assumes "post_upload_p1 cfg e req st = (res, st')" "status res = 201"
  shows "\<exists>f. image_field req = Some f \<and> mimetype f \<in> spec_allow_list \<and>
             write_error e = None \<and> size_f f \<le> MAX_FILE_SIZE \<and> db_error e = None"
proof (cases rule: upload_cases [where req = req and e = e])
  case no_file
  with assms post_upload_p1_no_file [OF no_file, of cfg e st] show ?thesis by auto
next
  case (rejected f)
  with assms post_upload_p1_rejected [OF rejected, of cfg e st] show ?thesis by auto
next
  case (write_failed f reason)
  with assms post_upload_p1_write_failed [OF write_failed, of cfg st] show ?thesis by auto
next
  case (too_large f)
  with assms post_upload_p1_too_large [OF too_large, of cfg st] show ?thesis by auto
next
  case (save_failed f msg)
  with assms post_upload_p1_save_failed [OF save_failed, of cfg st] show ?thesis by auto
next
  case (created f)
  then show ?thesis by simp
qed

lemma post_upload_p1_db:
  assumes "post_upload_p1 cfg e req st = (res, st')"
  shows "length (db st') = length (db st) + (if status res = 201 then 1 else 0)"
proof (cases rule: upload_cases [where req = req and e = e])
  case no_file
  with assms post_upload_p1_no_file [OF no_file, of cfg e st] show ?thesis by auto
next
  case (rejected f)
  with assms post_upload_p1_rejected [OF rejected, of cfg e st] show ?thesis by auto
next
  case (write_failed f reason)
  with assms post_upload_p1_write_failed [OF write_failed, of cfg st] show ?thesis by auto
next
  case (too_large f)
  with assms post_upload_p1_too_large [OF too_large, of cfg st] show ?thesis by auto
next
  case (save_failed f msg)
  with assms post_upload_p1_save_failed [OF save_failed, of cfg st] show ?thesis by auto
next
  case (created f)
  with assms post_upload_p1_created [OF created, of cfg st] show ?thesis by auto
qed

subsection \<open>The list handlers\<close>

lemma mset_find_sort: "mset (find_sort docs) = mset docs"
  by (simp add: find_sort_def)

lemma length_find_sort: "length (find_sort docs) = length docs"
  by (simp add: find_sort_def)

lemma find_sort_descending:
  "sorted_wrt (\<lambda>a b. img_createdAt b \<le> img_createdAt a) (find_sort docs)"
proof -
  have "sorted (map (\<lambda>img. - img_createdAt img) (find_sort docs))"
    unfolding find_sort_def by (rule sorted_sort_key)
  then show ?thesis
    by (simp add: sorted_wrt_map)
qed

lemma insort_key_map:
  "(\<And>x. k (h x) = k x) \<Longrightarrow> insort_key k (h x) (map h ys) = map h (insort_key k x ys)"
  by (induction ys) simp_all

lemma sort_key_map:
  "(\<And>x. k (h x) = k x) \<Longrightarrow> sort_key k (map h xs) = map h (sort_key k xs)"
  by (induction xs) (simp_all add: insort_key_map)

lemma find_sort_map:
  "(\<And>x. img_createdAt (h x) = img_createdAt x) \<Longrightarrow> find_sort (map h docs) = map h (find_sort docs)"
  unfolding find_sort_def by (rule sort_key_map) simp

lemma get_images_ok:
  "db_error e = None \<Longrightarrow>
   get_images cfg e req st =
     \<lparr>status = 200,
      body = JObj [(''success'', JBool True),
                   (''count'', JNum (length (find_sort (db st)))),
                   (''images'', JArr (map (\<lambda>img. projected (imageUrl req (img_filename img)) img)
                                       (find_sort (db st))))]\<rparr>"
  by (simp add: get_images_def images_handler_def projection_projected obj_def Let_def)

lemma get_images_failed:
  "db_error e = Some msg \<Longrightarrow>
   get_images cfg e req st =
     \<lparr>status = 500,
      body = obj [(''success'', Some (JBool False)),
                  (''error'', Some (JStr ''Failed to fetch images'')),
                  (''details'', details cfg msg)]\<rparr>"
  by (simp add: get_images_def images_handler_def)

lemma get_images_p0_ok:
  "db_error e = None \<Longrightarrow>
   get_images_p0 cfg e req st =
     \<lparr>status = 200,
      body = JObj [(''success'', JBool True),
                   (''count'', JNum (length (find_sort (db st)))),
                   (''images'', JArr (map (\<lambda>img. projected (baseUrl_p0 cfg (img_filename img)) img)
                                       (find_sort (db st))))]\<rparr>"
  by (simp add: get_images_p0_def images_handler_p0_def projection_projected obj_def Let_def)

lemma get_images_p0_failed:
  "db_error e = Some msg \<Longrightarrow>
   get_images_p0 cfg e req st =
     \<lparr>status = 500,
      body = JObj [(''success'', JBool False), (''error'', JStr ''Failed to fetch images'')]\<rparr>"
  by (simp add: get_images_p0_def images_handler_p0_def obj_def)

lemma get_images_p1_ok:
  "db_error e = None \<Longrightarrow>
   get_images_p1 cfg e req st =
     \<lparr>status = 200,
      body = JObj [(''success'', JBool True),
                   (''count'', JNum (length (find_sort (db st)))),
                   (''data'', JArr (map (\<lambda>img. projected (imageUrl req (img_filename img)) img)
                                     (find_sort (db st))))]\<rparr>"
  by (simp add: get_images_p1_def images_handler_p1_def projection_projected obj_def Let_def)

lemma get_images_p1_failed:
  "db_error e = Some msg \<Longrightarrow>
   get_images_p1 cfg e req st =
     \<lparr>status = 500,
      body = JObj [(''success'', JBool False), (''error'', JStr ''Failed to fetch images'')]\<rparr>"
  by (simp add: get_images_p1_def images_handler_p1_def obj_def)


subsection \<open>Runs\<close>

lemma uploads_length:
  assumes step: "\<And>e req st res st'. route cfg e req st = (res, st') \<Longrightarrow>
      length (db st') = length (db st) + (if status res = 201 then 1 else 0)"
  shows "uploads route cfg rs st = (ress, st') \<Longrightarrow>
      length (db st') = length (db st) + successes ress"
proof (induction rs arbitrary: st ress st')
  case Nil
  then show ?case by (simp add: successes_def)
next
  case (Cons r rs)
  obtain e req where r: "r = (e, req)" by (cases r)
  obtain res st1 where a: "route cfg e req st = (res, st1)" by (cases "route cfg e req st")
  obtain ress1 st2 where b: "uploads route cfg rs st1 = (ress1, st2)"
    by (cases "uploads route cfg rs st1")
  from Cons.prems r a b have eq: "ress = res # ress1" "st' = st2" by simp_all
  from step [OF a] Cons.IH [OF b] eq show ?case
    by (simp add: successes_def)
qed

section \<open>Helper lemmas for the responses\<close>

lemma field_obj:
  "field (obj kvs) k = map_of (List.map_filter (\<lambda>(k, v). map_option (Pair k) v) kvs) k"
  by (simp add: obj_def)

lemma details_unset: "NODE_ENV cfg \<noteq> ''development'' \<Longrightarrow> details cfg msg = None"
  by (simp add: details_def)

lemma details_set: "NODE_ENV cfg = ''development'' \<Longrightarrow> details cfg msg = Some (JStr msg)"
  by (simp add: details_def)

lemma post_upload_no_details:
  "NODE_ENV cfg \<noteq> ''development'' \<Longrightarrow>
   field (body (fst (post_upload cfg e req st))) ''details'' = None"
  by (simp add: post_upload_def single_def upload_handler_def error_middleware_def fileFilter_def
      details_unset field_obj Let_def split: option.splits sum.splits error.splits)

lemma post_upload_same_response:
  "NODE_ENV cfg \<noteq> ''development'' \<Longrightarrow>
   fst (post_upload cfg (e\<lparr>db_error := Some m1\<rparr>) req st) =
   fst (post_upload cfg (e\<lparr>db_error := Some m2\<rparr>) req st)"
  by (simp add: post_upload_def single_def upload_handler_def error_middleware_def fileFilter_def
      storage_filename_def details_unset Let_def split: option.splits sum.splits error.splits)

lemma post_upload_p0_no_details:
  "field (body (fst (post_upload_p0 cfg e req st))) ''details'' = None"
  by (simp add: post_upload_p0_def single_def upload_handler_p0_def error_middleware_p0_def
      fileFilter_p0_def field_obj Let_def projection_projected projected_def
      split: option.splits sum.splits error.splits)

lemma post_upload_p1_no_details:
  "field (body (fst (post_upload_p1 cfg e req st))) ''details'' = None"
  by (simp add: post_upload_p1_def single_def upload_handler_p1_def error_middleware_p1_def
      fileFilter_p1_def field_obj Let_def projection_projected projected_def
      split: option.splits sum.splits error.splits)

lemma post_upload_same_response_write:
  "NODE_ENV cfg \<noteq> ''development'' \<Longrightarrow>
   fst (post_upload cfg (e\<lparr>write_error := Some r1\<rparr>) req st) =
   fst (post_upload cfg (e\<lparr>write_error := Some r2\<rparr>) req st)"
  by (simp add: post_upload_def single_def upload_handler_def error_middleware_def fileFilter_def
      storage_filename_def details_unset Let_def split: option.splits sum.splits error.splits)

lemma post_upload_upload_dir:
  assumes "NODE_ENV cfg \<noteq> ''development'' \<or> write_error e = None"
  shows "fst (post_upload (cfg\<lparr>UPLOAD_DIR := dir\<rparr>) e req st) = fst (post_upload cfg e req st)"
  using assms
  by (auto simp: post_upload_def single_def upload_handler_def error_middleware_def fileFilter_def
      details_def newImage_def projection_def Let_def
      split: option.splits sum.splits error.splits)

lemma post_upload_p0_upload_dir:
  "fst (post_upload_p0 (cfg\<lparr>UPLOAD_DIR := dir\<rparr>) e req st) = fst (post_upload_p0 cfg e req st)"
  by (simp add: post_upload_p0_def single_def upload_handler_p0_def error_middleware_p0_def
      fileFilter_p0_def newImage_def projection_def baseUrl_p0_def Let_def
      split: option.splits sum.splits error.splits)

lemma post_upload_p1_upload_dir:
  "fst (post_upload_p1 (cfg\<lparr>UPLOAD_DIR := dir\<rparr>) e req st) = fst (post_upload_p1 cfg e req st)"
  by (simp add: post_upload_p1_def single_def upload_handler_p1_def error_middleware_p1_def
      fileFilter_p1_def newImage_def projection_def Let_def
      split: option.splits sum.splits error.splits)

lemma find_sort_path:
  "find_sort (map (\<lambda>img. img\<lparr>img_path := g img\<rparr>) docs) =
   map (\<lambda>img. img\<lparr>img_path := g img\<rparr>) (find_sort docs)"
  by (rule find_sort_map) simp

lemma get_images_path:
  "get_images cfg e req (st\<lparr>db := map (\<lambda>img. img\<lparr>img_path := g img\<rparr>) (db st)\<rparr>) =
   get_images cfg e req st"
  by (simp add: get_images_def images_handler_def find_sort_path projection_def o_def Let_def
      split: option.splits)

lemma get_images_p0_path:
  "get_images_p0 cfg e req (st\<lparr>db := map (\<lambda>img. img\<lparr>img_path := g img\<rparr>) (db st)\<rparr>) =
   get_images_p0 cfg e req st"
  by (simp add: get_images_p0_def images_handler_p0_def find_sort_path projection_def o_def
      length_find_sort Let_def split: option.splits)

lemma get_images_p1_path:
  "get_images_p1 cfg e req (st\<lparr>db := map (\<lambda>img. img\<lparr>img_path := g img\<rparr>) (db st)\<rparr>) =
   get_images_p1 cfg e req st"
  by (simp add: get_images_p1_def images_handler_p1_def find_sort_path projection_def o_def Let_def
      split: option.splits)

section \<open>The example inputs through the routes\<close>

lemma example_uploads:
  "post_upload cfg_prod env_ok (req_with (Some photo_png)) st =
     (\<lparr>status = 201,
       body = JObj [(''success'', JBool True),
                    (''message'', JStr ''Image uploaded successfully''),
                    (''data'', JObj [(''id'', JStr ''66f1a0''), (''name'', JStr ''photo.png''),
                       (''url'', JStr ''https://img.example.com/uploads/1700000000123-42.png''),
                       (''size'', JNum 1024), (''uploadedAt'', JDate 1700000000130)])]\<rparr>,
      \<lparr>db = db st @ [created_doc cfg_prod env_ok ''1700000000123-42.png'' photo_png],
       files = (files st)(''1700000000123-42.png'' \<mapsto> 1024)\<rparr>)"
  "post_upload_p0 cfg_prod env_ok (req_with (Some photo_png)) st =
     (\<lparr>status = 201,
       body = JObj [(''success'', JBool True),
                    (''message'', JStr ''Image uploaded successfully''),
                    (''image'', JObj [(''id'', JStr ''66f1a0''), (''name'', JStr ''photo.png''),
                       (''url'', JStr ''http://localhost:3001/uploads/img-1700000000123.png''),
                       (''size'', JNum 1024), (''uploadedAt'', JDate 1700000000130)])]\<rparr>,
      \<lparr>db = db st @ [created_doc cfg_prod env_ok ''img-1700000000123.png'' photo_png],
       files = (files st)(''img-1700000000123.png'' \<mapsto> 1024)\<rparr>)"
  "post_upload_p1 cfg_prod env_ok (req_with (Some photo_png)) st =
     (\<lparr>status = 201,
       body = JObj [(''success'', JBool True),
                    (''message'', JStr ''Image uploaded successfully''),
                    (''data'', JObj [(''id'', JStr ''66f1a0''), (''name'', JStr ''photo.png''),
                       (''url'', JStr ''https://img.example.com/uploads/img-1700000000123.png''),
                       (''size'', JNum 1024), (''uploadedAt'', JDate 1700000000130)])]\<rparr>,
      \<lparr>db = db st @ [created_doc cfg_prod env_ok ''img-1700000000123.png'' photo_png],
       files = (files st)(''img-1700000000123.png'' \<mapsto> 1024)\<rparr>)"
proof -
  have f: "image_field (req_with (Some photo_png)) = Some photo_png"
    and m: "mimetype photo_png \<in> spec_allow_list"
    and w: "write_error env_ok = None"
    and z: "size_f photo_png \<le> MAX_FILE_SIZE"
    and d: "db_error env_ok = None"
    by (simp_all add: req_with_def photo_png_def spec_allow_list_def MAX_FILE_SIZE_def env_ok_def)
  show "post_upload cfg_prod env_ok (req_with (Some photo_png)) st =
     (\<lparr>status = 201,
       body = JObj [(''success'', JBool True),
                    (''message'', JStr ''Image uploaded successfully''),
                    (''data'', JObj [(''id'', JStr ''66f1a0''), (''name'', JStr ''photo.png''),
                       (''url'', JStr ''https://img.example.com/uploads/1700000000123-42.png''),
                       (''size'', JNum 1024), (''uploadedAt'', JDate 1700000000130)])]\<rparr>,
      \<lparr>db = db st @ [created_doc cfg_prod env_ok ''1700000000123-42.png'' photo_png],
       files = (files st)(''1700000000123-42.png'' \<mapsto> 1024)\<rparr>)"
    unfolding post_upload_created [OF f m w z d] storage_filename_examples
    by (simp add: projected_def created_doc_def imageUrl_def req_with_def photo_png_def env_ok_def)
  show "post_upload_p0 cfg_prod env_ok (req_with (Some photo_png)) st =
     (\<lparr>status = 201,
       body = JObj [(''success'', JBool True),
                    (''message'', JStr ''Image uploaded successfully''),
                    (''image'', JObj [(''id'', JStr ''66f1a0''), (''name'', JStr ''photo.png''),
                       (''url'', JStr ''http://localhost:3001/uploads/img-1700000000123.png''),
                       (''size'', JNum 1024), (''uploadedAt'', JDate 1700000000130)])]\<rparr>,
      \<lparr>db = db st @ [created_doc cfg_prod env_ok ''img-1700000000123.png'' photo_png],
       files = (files st)(''img-1700000000123.png'' \<mapsto> 1024)\<rparr>)"
    unfolding post_upload_p0_created [OF f m w z d] storage_filename_examples
    by (simp add: projected_def created_doc_def baseUrl_p0_def cfg_prod_def photo_png_def env_ok_def)
  show "post_upload_p1 cfg_prod env_ok (req_with (Some photo_png)) st =
     (\<lparr>status = 201,
       body = JObj [(''success'', JBool True),
                    (''message'', JStr ''Image uploaded successfully''),
                    (''data'', JObj [(''id'', JStr ''66f1a0''), (''name'', JStr ''photo.png''),
                       (''url'', JStr ''https://img.example.com/uploads/img-1700000000123.png''),
                       (''size'', JNum 1024), (''uploadedAt'', JDate 1700000000130)])]\<rparr>,
      \<lparr>db = db st @ [created_doc cfg_prod env_ok ''img-1700000000123.png'' photo_png],
       files = (files st)(''img-1700000000123.png'' \<mapsto> 1024)\<rparr>)"
    unfolding post_upload_p1_created [OF f m w z d] storage_filename_examples
    by (simp add: projected_def created_doc_def imageUrl_def req_with_def photo_png_def env_ok_def)
qed

lemma example_upload_later:
  "post_upload cfg_prod env_later (req_with (Some other_png)) st =
     (\<lparr>status = 201,
       body = JObj [(''success'', JBool True),
                    (''message'', JStr ''Image uploaded successfully''),
                    (''data'', JObj [(''id'', JStr ''66f1a1''), (''name'', JStr ''cat.png''),
                       (''url'', JStr ''https://img.example.com/uploads/1700000000456-7.png''),
                       (''size'', JNum 2048), (''uploadedAt'', JDate 1700000000460)])]\<rparr>,
      \<lparr>db = db st @ [created_doc cfg_prod env_later ''1700000000456-7.png'' other_png],
       files = (files st)(''1700000000456-7.png'' \<mapsto> 2048)\<rparr>)"
proof -
  have f: "image_field (req_with (Some other_png)) = Some other_png"
    and m: "mimetype other_png \<in> spec_allow_list"
    and w: "write_error env_later = None"
    and z: "size_f other_png \<le> MAX_FILE_SIZE"
    and d: "db_error env_later = None"
    by (simp_all add: req_with_def other_png_def spec_allow_list_def MAX_FILE_SIZE_def env_later_def)
  have "toString 1700000000456 = ''1700000000456''" "toString 7 = ''7''"
    by (simp_all add: toString.simps digit_def)
  then have n: "storage_filename env_later other_png = ''1700000000456-7.png''"
    by (simp add: storage_filename_def env_later_def other_png_def extname_examples)
  show ?thesis
    unfolding post_upload_created [OF f m w z d] n
    by (simp add: projected_def created_doc_def imageUrl_def req_with_def other_png_def
        env_later_def)
qed

lemma example_upload_rejected:
  "post_upload cfg_prod env_ok (req_with (Some notes_txt)) st =
     (\<lparr>status = 500,
       body = JObj [(''success'', JBool False), (''error'', JStr ''Internal server error'')]\<rparr>,
      st)"
proof -
  have "image_field (req_with (Some notes_txt)) = Some notes_txt"
    and "mimetype notes_txt \<notin> spec_allow_list"
    by (simp_all add: req_with_def notes_txt_def spec_allow_list_def)
  then show ?thesis
    by (simp add: post_upload_rejected details_def cfg_prod_def obj_def)
qed

lemma example_run_result:
  "map status (fst (uploads post_upload cfg_prod example_run initial)) = [201, 500, 201]"
  "db (snd (uploads post_upload cfg_prod example_run initial)) =
     [created_doc cfg_prod env_ok ''1700000000123-42.png'' photo_png,
      created_doc cfg_prod env_later ''1700000000456-7.png'' other_png]"
  by (simp_all add: example_run_def example_uploads example_upload_rejected
      example_upload_later initial_def)

lemma example_write_failed:
  "post_upload cfg env_disk (req_with (Some photo_png)) st =
     (\<lparr>status = 500,
       body = obj [(''success'', Some (JBool False)),
                   (''error'', Some (JStr ''Internal server error'')),
                   (''details'', details cfg
                      (fs_message ''EACCES: permission denied''
                         (UPLOAD_DIR cfg @ ''/1700000000123-42.png'')))]\<rparr>,
      st)"
proof -
  have f: "image_field (req_with (Some photo_png)) = Some photo_png"
    and m: "mimetype photo_png \<in> spec_allow_list"
    and w: "write_error env_disk = Some ''EACCES: permission denied''"
    by (simp_all add: req_with_def photo_png_def spec_allow_list_def env_disk_def)
  have "storage_filename env_disk photo_png = storage_filename env_ok photo_png"
    by (simp add: storage_filename_def env_disk_def)
  then show ?thesis
    unfolding post_upload_write_failed [OF f m w] by (simp add: storage_filename_examples)
qed

section \<open>Upload validator: the claims\<close>

text \<open>
  C1.  The validator accepts a file if and only if its declared media type is in the
  allow-list \<open>{image/jpeg, image/png, image/gif, image/webp}\<close>, and rejects every other
  media type with an error that carries a message.  This holds for the filter of each of
  the three files.
\<close>

theorem fileFilter_accepts_iff_allowed:
  "(fileFilter req f = Inr True \<longleftrightarrow> mimetype f \<in> spec_allow_list) \<and>
   (mimetype f \<notin> spec_allow_list \<longrightarrow> (\<exists>m. m \<noteq> [] \<and> fileFilter req f = Inl (Error m))) \<and>
   (fileFilter_p0 req f = Inr True \<longleftrightarrow> mimetype f \<in> spec_allow_list) \<and>
   (mimetype f \<notin> spec_allow_list \<longrightarrow> (\<exists>m. m \<noteq> [] \<and> fileFilter_p0 req f = Inl (Error m))) \<and>
   (fileFilter_p1 req f = Inr True \<longleftrightarrow> mimetype f \<in> spec_allow_list) \<and>
   (mimetype f \<notin> spec_allow_list \<longrightarrow> (\<exists>m. m \<noteq> [] \<and> fileFilter_p1 req f = Inl (Error m)))"
  by (simp add: fileFilter_def fileFilter_p0_def fileFilter_p1_def allowedTypes_def
      spec_allow_list_def)

theorem fileFilter_accepts_iff_allowed_witness:
  "fileFilter (req_with (Some photo_png)) photo_png = Inr True \<and>
   (\<exists>m. m \<noteq> [] \<and> fileFilter (req_with (Some notes_txt)) notes_txt = Inl (Error m)) \<and>
   (\<exists>m. m \<noteq> [] \<and> fileFilter_p0 (req_with (Some notes_txt)) notes_txt = Inl (Error m)) \<and>
   (\<exists>m. m \<noteq> [] \<and> fileFilter_p1 (req_with (Some notes_txt)) notes_txt = Inl (Error m))"
  using fileFilter_accepts_iff_allowed [of "req_with (Some photo_png)" photo_png]
    fileFilter_accepts_iff_allowed [of "req_with (Some notes_txt)" notes_txt]
  by (simp add: spec_allow_list_def photo_png_def notes_txt_def)

text \<open>
  C10.  The decision of the validator is a function of the declared media type alone: two
  files with the same media type get the same decision, whatever their names and sizes
  and whatever the requests that carry them.
\<close>

theorem fileFilter_mimetype_only:
  "mimetype f1 = mimetype f2 \<Longrightarrow>
   fileFilter req1 f1 = fileFilter req2 f2 \<and>
   fileFilter_p0 req1 f1 = fileFilter_p0 req2 f2 \<and>
   fileFilter_p1 req1 f1 = fileFilter_p1 req2 f2"
  by (simp add: fileFilter_def fileFilter_p0_def fileFilter_p1_def)

theorem fileFilter_mimetype_only_witness:
  "photo_png \<noteq> other_png \<and>
   fileFilter (req_with (Some photo_png)) photo_png =
     fileFilter (req_with (Some other_png)) other_png \<and>
   fileFilter_p0 (req_with (Some photo_png)) photo_png =
     fileFilter_p0 (req_with (Some other_png)) other_png \<and>
   fileFilter_p1 (req_with (Some photo_png)) photo_png =
     fileFilter_p1 (req_with (Some other_png)) other_png"
  using fileFilter_mimetype_only [of photo_png other_png
      "req_with (Some photo_png)" "req_with (Some other_png)"]
  by (simp add: photo_png_def other_png_def)

section \<open>Upload handler: the claims\<close>

text \<open>
  C2, evaluated on \<^verbatim>\<open>server.js\<close> at an upload of \<^verbatim>\<open>notes.txt\<close> declared \<^verbatim>\<open>text/plain\<close>.
  No record is created and no file is written, as the claim says; but the status is 500,
  not 400: \<^verbatim>\<open>fileFilter\<close> passes a plain \<^verbatim>\<open>Error\<close>, and the error-handling middleware
  answers 400 only for a \<^verbatim>\<open>MulterError\<close>.
\<close>

theorem post_upload_text_plain:
  "post_upload cfg_prod env_ok (req_with (Some notes_txt)) initial =
     (\<lparr>status = 500,
       body = JObj [(''success'', JBool False), (''error'', JStr ''Internal server error'')]\<rparr>,
      initial)"
proof -
  have "image_field (req_with (Some notes_txt)) = Some notes_txt"
    and "mimetype notes_txt \<notin> spec_allow_list"
    by (simp_all add: req_with_def notes_txt_def spec_allow_list_def)
  then show ?thesis
    by (simp add: post_upload_rejected details_def cfg_prod_def obj_def)
qed

text \<open>
  C4.  An upload request that carries a file of an allowed type within the size limit,
  whose write and whose \<^verbatim>\<open>save()\<close> succeed, is answered with status 201: one record built
  from the file is created, and the body holds, next to \<^verbatim>\<open>success\<close> and \<^verbatim>\<open>message\<close>, the
  projection of that record with exactly the fields \<^verbatim>\<open>id\<close>, \<^verbatim>\<open>name\<close> (the original name),
  \<^verbatim>\<open>url\<close>, \<^verbatim>\<open>size\<close> and \<^verbatim>\<open>uploadedAt\<close>, in each of the three files (under the key
  \<^verbatim>\<open>image\<close> in \<^verbatim>\<open>part_000\<close>, \<^verbatim>\<open>data\<close> in the two others).  Conversely every answer with
  status 201 has this body and comes with exactly one new record.
\<close>

theorem upload_created_response:
  "(image_field req = Some f \<and> mimetype f \<in> spec_allow_list \<and> write_error e = None \<and>
    size_f f \<le> MAX_FILE_SIZE \<and> db_error e = None \<longrightarrow>
      (\<exists>doc url.
         post_upload cfg e req st =
           (\<lparr>status = 201,
             body = JObj [(''success'', JBool True),
                     (''message'', JStr ''Image uploaded successfully''),
                     (''data'', JObj [(''id'', JStr (img_id doc)),
                                (''name'', JStr (img_originalname doc)),
                                (''url'', JStr url),
                                (''size'', JNum (img_size doc)),
                                (''uploadedAt'', JDate (img_createdAt doc))])]\<rparr>,
            \<lparr>db = db st @ [doc], files = (files st)(img_filename doc \<mapsto> size_f f)\<rparr>) \<and>
         img_originalname doc = originalname f \<and> img_size doc = size_f f)) \<and>
   (image_field req = Some f \<and> mimetype f \<in> spec_allow_list \<and> write_error e = None \<and>
    size_f f \<le> MAX_FILE_SIZE \<and> db_error e = None \<longrightarrow>
      (\<exists>doc url.
         post_upload_p0 cfg e req st =
           (\<lparr>status = 201,
             body = JObj [(''success'', JBool True),
                     (''message'', JStr ''Image uploaded successfully''),
                     (''image'', JObj [(''id'', JStr (img_id doc)),
                                (''name'', JStr (img_originalname doc)),
                                (''url'', JStr url),
                                (''size'', JNum (img_size doc)),
                                (''uploadedAt'', JDate (img_createdAt doc))])]\<rparr>,
            \<lparr>db = db st @ [doc], files = (files st)(img_filename doc \<mapsto> size_f f)\<rparr>) \<and>
         img_originalname doc = originalname f \<and> img_size doc = size_f f)) \<and>
   (image_field req = Some f \<and> mimetype f \<in> spec_allow_list \<and> write_error e = None \<and>
    size_f f \<le> MAX_FILE_SIZE \<and> db_error e = None \<longrightarrow>
      (\<exists>doc url.
         post_upload_p1 cfg e req st =
           (\<lparr>status = 201,
             body = JObj [(''success'', JBool True),
                     (''message'', JStr ''Image uploaded successfully''),
                     (''data'', JObj [(''id'', JStr (img_id doc)),
                                (''name'', JStr (img_originalname doc)),
                                (''url'', JStr url),
                                (''size'', JNum (img_size doc)),
                                (''uploadedAt'', JDate (img_createdAt doc))])]\<rparr>,
            \<lparr>db = db st @ [doc], files = (files st)(img_filename doc \<mapsto> size_f f)\<rparr>) \<and>
         img_originalname doc = originalname f \<and> img_size doc = size_f f)) \<and>
   (post_upload cfg e req st = (res, st') \<and> status res = 201 \<longrightarrow>
      (\<exists>doc url f. image_field req = Some f \<and> db st' = db st @ [doc] \<and>
         img_originalname doc = originalname f \<and> img_size doc = size_f f \<and>
         body res = JObj [(''success'', JBool True),
                 (''message'', JStr ''Image uploaded successfully''),
                 (''data'', JObj [(''id'', JStr (img_id doc)),
                            (''name'', JStr (img_originalname doc)),
                            (''url'', JStr url),
                            (''size'', JNum (img_size doc)),
                            (''uploadedAt'', JDate (img_createdAt doc))])])) \<and>
   (post_upload_p0 cfg e req st = (res, st') \<and> status res = 201 \<longrightarrow>
      (\<exists>doc url f. image_field req = Some f \<and> db st' = db st @ [doc] \<and>
         img_originalname doc = originalname f \<and> img_size doc = size_f f \<and>
         body res = JObj [(''success'', JBool True),
                 (''message'', JStr ''Image uploaded successfully''),
                 (''image'', JObj [(''id'', JStr (img_id doc)),
                            (''name'', JStr (img_originalname doc)),
                            (''url'', JStr url),
                            (''size'', JNum (img_size doc)),
                            (''uploadedAt'', JDate (img_createdAt doc))])])) \<and>
   (post_upload_p1 cfg e req st = (res, st') \<and> status res = 201 \<longrightarrow>
      (\<exists>doc url f. image_field req = Some f \<and> db st' = db st @ [doc] \<and>
         img_originalname doc = originalname f \<and> img_size doc = size_f f \<and>
         body res = JObj [(''success'', JBool True),
                 (''message'', JStr ''Image uploaded successfully''),
                 (''data'', JObj [(''id'', JStr (img_id doc)),
                            (''name'', JStr (img_originalname doc)),
                            (''url'', JStr url),
                            (''size'', JNum (img_size doc)),
                            (''uploadedAt'', JDate (img_createdAt doc))])]))"
proof (intro conjI impI)
  assume "image_field req = Some f \<and> mimetype f \<in> spec_allow_list \<and> write_error e = None \<and>
    size_f f \<le> MAX_FILE_SIZE \<and> db_error e = None"
  then have "post_upload cfg e req st =
     (\<lparr>status = 201,
       body = JObj [(''success'', JBool True),
                    (''message'', JStr ''Image uploaded successfully''),
                    (''data'', projected (imageUrl req (storage_filename e f))
                                (created_doc cfg e (storage_filename e f) f))]\<rparr>,
      \<lparr>db = db st @ [created_doc cfg e (storage_filename e f) f],
       files = (files st)(storage_filename e f \<mapsto> size_f f)\<rparr>)"
    by (intro post_upload_created) simp_all
  then show "\<exists>doc url.
         post_upload cfg e req st =
           (\<lparr>status = 201,
             body = JObj [(''success'', JBool True),
                     (''message'', JStr ''Image uploaded successfully''),
                     (''data'', JObj [(''id'', JStr (img_id doc)),
                                (''name'', JStr (img_originalname doc)),
                                (''url'', JStr url),
                                (''size'', JNum (img_size doc)),
                                (''uploadedAt'', JDate (img_createdAt doc))])]\<rparr>,
            \<lparr>db = db st @ [doc], files = (files st)(img_filename doc \<mapsto> size_f f)\<rparr>) \<and>
         img_originalname doc = originalname f \<and> img_size doc = size_f f"
    by (intro exI [of _ "created_doc cfg e (storage_filename e f) f"] exI [of _ "imageUrl req (storage_filename e f)"])
      (simp add: projected_def created_doc_def)
next
  assume "image_field req = Some f \<and> mimetype f \<in> spec_allow_list \<and> write_error e = None \<and>
    size_f f \<le> MAX_FILE_SIZE \<and> db_error e = None"
  then have "post_upload_p0 cfg e req st =
     (\<lparr>status = 201,
       body = JObj [(''success'', JBool True),
                    (''message'', JStr ''Image uploaded successfully''),
                    (''image'', projected (baseUrl_p0 cfg (storage_filename_p0 e f))
                                (created_doc cfg e (storage_filename_p0 e f) f))]\<rparr>,
      \<lparr>db = db st @ [created_doc cfg e (storage_filename_p0 e f) f],
       files = (files st)(storage_filename_p0 e f \<mapsto> size_f f)\<rparr>)"
    by (intro post_upload_p0_created) simp_all
  then show "\<exists>doc url.
         post_upload_p0 cfg e req st =
           (\<lparr>status = 201,
             body = JObj [(''success'', JBool True),
                     (''message'', JStr ''Image uploaded successfully''),
                     (''image'', JObj [(''id'', JStr (img_id doc)),
                                (''name'', JStr (img_originalname doc)),
                                (''url'', JStr url),
                                (''size'', JNum (img_size doc)),
                                (''uploadedAt'', JDate (img_createdAt doc))])]\<rparr>,
            \<lparr>db = db st @ [doc], files = (files st)(img_filename doc \<mapsto> size_f f)\<rparr>) \<and>
         img_originalname doc = originalname f \<and> img_size doc = size_f f"
    by (intro exI [of _ "created_doc cfg e (storage_filename_p0 e f) f"] exI [of _ "baseUrl_p0 cfg (storage_filename_p0 e f)"])
      (simp add: projected_def created_doc_def)
next
  assume "image_field req = Some f \<and> mimetype f \<in> spec_allow_list \<and> write_error e = None \<and>
    size_f f \<le> MAX_FILE_SIZE \<and> db_error e = None"
  then have "post_upload_p1 cfg e req st =
     (\<lparr>status = 201,
       body = JObj [(''success'', JBool True),
                    (''message'', JStr ''Image uploaded successfully''),
                    (''data'', projected (imageUrl req (storage_filename_p0 e f))
                                (created_doc cfg e (storage_filename_p0 e f) f))]\<rparr>,
      \<lparr>db = db st @ [created_doc cfg e (storage_filename_p0 e f) f],
       files = (files st)(storage_filename_p0 e f \<mapsto> size_f f)\<rparr>)"
    by (intro post_upload_p1_created) simp_all
  then show "\<exists>doc url.
         post_upload_p1 cfg e req st =
           (\<lparr>status = 201,
             body = JObj [(''success'', JBool True),
                     (''message'', JStr ''Image uploaded successfully''),
                     (''data'', JObj [(''id'', JStr (img_id doc)),
                                (''name'', JStr (img_originalname doc)),
                                (''url'', JStr url),
                                (''size'', JNum (img_size doc)),
                                (''uploadedAt'', JDate (img_createdAt doc))])]\<rparr>,
            \<lparr>db = db st @ [doc], files = (files st)(img_filename doc \<mapsto> size_f f)\<rparr>) \<and>
         img_originalname doc = originalname f \<and> img_size doc = size_f f"
    by (intro exI [of _ "created_doc cfg e (storage_filename_p0 e f) f"] exI [of _ "imageUrl req (storage_filename_p0 e f)"])
      (simp add: projected_def created_doc_def)
next
  assume a: "post_upload cfg e req st = (res, st') \<and> status res = 201"
  then obtain f where f: "image_field req = Some f" "mimetype f \<in> spec_allow_list"
      "write_error e = None" "size_f f \<le> MAX_FILE_SIZE" "db_error e = None"
    using post_upload_201 by blast
  from a post_upload_created [OF f, of cfg st] f(1)
  show "\<exists>doc url f. image_field req = Some f \<and> db st' = db st @ [doc] \<and>
         img_originalname doc = originalname f \<and> img_size doc = size_f f \<and>
         body res = JObj [(''success'', JBool True),
                 (''message'', JStr ''Image uploaded successfully''),
                 (''data'', JObj [(''id'', JStr (img_id doc)),
                            (''name'', JStr (img_originalname doc)),
                            (''url'', JStr url),
                            (''size'', JNum (img_size doc)),
                            (''uploadedAt'', JDate (img_createdAt doc))])]"
    by (auto simp: projected_def created_doc_def)
next
  assume a: "post_upload_p0 cfg e req st = (res, st') \<and> status res = 201"
  then obtain f where f: "image_field req = Some f" "mimetype f \<in> spec_allow_list"
      "write_error e = None" "size_f f \<le> MAX_FILE_SIZE" "db_error e = None"
    using post_upload_p0_201 by blast
  from a post_upload_p0_created [OF f, of cfg st] f(1)
  show "\<exists>doc url f. image_field req = Some f \<and> db st' = db st @ [doc] \<and>
         img_originalname doc = originalname f \<and> img_size doc = size_f f \<and>
         body res = JObj [(''success'', JBool True),
                 (''message'', JStr ''Image uploaded successfully''),
                 (''image'', JObj [(''id'', JStr (img_id doc)),
                            (''name'', JStr (img_originalname doc)),
                            (''url'', JStr url),
                            (''size'', JNum (img_size doc)),
                            (''uploadedAt'', JDate (img_createdAt doc))])]"
    by (auto simp: projected_def created_doc_def)
next
  assume a: "post_upload_p1 cfg e req st = (res, st') \<and> status res = 201"
  then obtain f where f: "image_field req = Some f" "mimetype f \<in> spec_allow_list"
      "write_error e = None" "size_f f \<le> MAX_FILE_SIZE" "db_error e = None"
    using post_upload_p1_201 by blast
  from a post_upload_p1_created [OF f, of cfg st] f(1)
  show "\<exists>doc url f. image_field req = Some f \<and> db st' = db st @ [doc] \<and>
         img_originalname doc = originalname f \<and> img_size doc = size_f f \<and>
         body res = JObj [(''success'', JBool True),
                 (''message'', JStr ''Image uploaded successfully''),
                 (''data'', JObj [(''id'', JStr (img_id doc)),
                            (''name'', JStr (img_originalname doc)),
                            (''url'', JStr url),
                            (''size'', JNum (img_size doc)),
                            (''uploadedAt'', JDate (img_createdAt doc))])]"
    by (auto simp: projected_def created_doc_def)
qed

theorem upload_created_response_witness:
  "(\<exists>doc url.
      post_upload cfg_prod env_ok (req_with (Some photo_png)) initial =
        (\<lparr>status = 201,
          body = JObj [(''success'', JBool True),
                  (''message'', JStr ''Image uploaded successfully''),
                  (''data'', JObj [(''id'', JStr (img_id doc)),
                             (''name'', JStr (img_originalname doc)),
                             (''url'', JStr url),
                             (''size'', JNum (img_size doc)),
                             (''uploadedAt'', JDate (img_createdAt doc))])]\<rparr>,
         \<lparr>db = db initial @ [doc],
          files = (files initial)(img_filename doc \<mapsto> size_f photo_png)\<rparr>) \<and>
      img_originalname doc = originalname photo_png \<and> img_size doc = size_f photo_png) \<and>
   (\<exists>doc url.
      post_upload_p0 cfg_prod env_ok (req_with (Some photo_png)) initial =
        (\<lparr>status = 201,
          body = JObj [(''success'', JBool True),
                  (''message'', JStr ''Image uploaded successfully''),
                  (''image'', JObj [(''id'', JStr (img_id doc)),
                             (''name'', JStr (img_originalname doc)),
                             (''url'', JStr url),
                             (''size'', JNum (img_size doc)),
                             (''uploadedAt'', JDate (img_createdAt doc))])]\<rparr>,
         \<lparr>db = db initial @ [doc],
          files = (files initial)(img_filename doc \<mapsto> size_f photo_png)\<rparr>) \<and>
      img_originalname doc = originalname photo_png \<and> img_size doc = size_f photo_png) \<and>
   (\<exists>doc url.
      post_upload_p1 cfg_prod env_ok (req_with (Some photo_png)) initial =
        (\<lparr>status = 201,
          body = JObj [(''success'', JBool True),
                  (''message'', JStr ''Image uploaded successfully''),
                  (''data'', JObj [(''id'', JStr (img_id doc)),
                             (''name'', JStr (img_originalname doc)),
                             (''url'', JStr url),
                             (''size'', JNum (img_size doc)),
                             (''uploadedAt'', JDate (img_createdAt doc))])]\<rparr>,
         \<lparr>db = db initial @ [doc],
          files = (files initial)(img_filename doc \<mapsto> size_f photo_png)\<rparr>) \<and>
      img_originalname doc = originalname photo_png \<and> img_size doc = size_f photo_png) \<and>
   (\<exists>doc url f. image_field (req_with (Some photo_png)) = Some f \<and>
      db (snd (post_upload cfg_prod env_ok (req_with (Some photo_png)) initial)) =
        db initial @ [doc] \<and>
      img_originalname doc = originalname f \<and> img_size doc = size_f f \<and>
      body (fst (post_upload cfg_prod env_ok (req_with (Some photo_png)) initial)) =
        JObj [(''success'', JBool True),
              (''message'', JStr ''Image uploaded successfully''),
              (''data'', JObj [(''id'', JStr (img_id doc)),
                         (''name'', JStr (img_originalname doc)),
                         (''url'', JStr url),
                         (''size'', JNum (img_size doc)),
                         (''uploadedAt'', JDate (img_createdAt doc))])]) \<and>
   (\<exists>doc url f. image_field (req_with (Some photo_png)) = Some f \<and>
      db (snd (post_upload_p0 cfg_prod env_ok (req_with (Some photo_png)) initial)) =
        db initial @ [doc] \<and>
      img_originalname doc = originalname f \<and> img_size doc = size_f f \<and>
      body (fst (post_upload_p0 cfg_prod env_ok (req_with (Some photo_png)) initial)) =
        JObj [(''success'', JBool True),
              (''message'', JStr ''Image uploaded successfully''),
              (''image'', JObj [(''id'', JStr (img_id doc)),
                         (''name'', JStr (img_originalname doc)),
                         (''url'', JStr url),
                         (''size'', JNum (img_size doc)),
                         (''uploadedAt'', JDate (img_createdAt doc))])]) \<and>
   (\<exists>doc url f. image_field (req_with (Some photo_png)) = Some f \<and>
      db (snd (post_upload_p1 cfg_prod env_ok (req_with (Some photo_png)) initial)) =
        db initial @ [doc] \<and>
      img_originalname doc = originalname f \<and> img_size doc = size_f f \<and>
      body (fst (post_upload_p1 cfg_prod env_ok (req_with (Some photo_png)) initial)) =
        JObj [(''success'', JBool True),
              (''message'', JStr ''Image uploaded successfully''),
              (''data'', JObj [(''id'', JStr (img_id doc)),
                         (''name'', JStr (img_originalname doc)),
                         (''url'', JStr url),
                         (''size'', JNum (img_size doc)),
                         (''uploadedAt'', JDate (img_createdAt doc))])])"
proof -
  let ?req = "req_with (Some photo_png)"
  have h: "image_field ?req = Some photo_png \<and> mimetype photo_png \<in> spec_allow_list \<and>
      write_error env_ok = None \<and> size_f photo_png \<le> MAX_FILE_SIZE \<and> db_error env_ok = None"
    by (simp add: req_with_def photo_png_def spec_allow_list_def MAX_FILE_SIZE_def env_ok_def)
  define r where "r = post_upload cfg_prod env_ok ?req initial"
  define r0 where "r0 = post_upload_p0 cfg_prod env_ok ?req initial"
  define r1 where "r1 = post_upload_p1 cfg_prod env_ok ?req initial"
  have s: "status (fst r) = 201" "status (fst r0) = 201" "status (fst r1) = 201"
    unfolding r_def r0_def r1_def example_uploads by simp_all
  have p: "post_upload cfg_prod env_ok ?req initial = (fst r, snd r) \<and> status (fst r) = 201"
    "post_upload_p0 cfg_prod env_ok ?req initial = (fst r0, snd r0) \<and> status (fst r0) = 201"
    "post_upload_p1 cfg_prod env_ok ?req initial = (fst r1, snd r1) \<and> status (fst r1) = 201"
    using s by (simp_all add: r_def r0_def r1_def)
  note t = upload_created_response [where cfg = cfg_prod and e = env_ok and req = ?req
      and st = initial and f = photo_png]
  from h t have a: "(\<exists>doc url.
      post_upload cfg_prod env_ok (req_with (Some photo_png)) initial =
        (\<lparr>status = 201,
          body = JObj [(''success'', JBool True),
                  (''message'', JStr ''Image uploaded successfully''),
                  (''data'', JObj [(''id'', JStr (img_id doc)),
                             (''name'', JStr (img_originalname doc)),
                             (''url'', JStr url),
                             (''size'', JNum (img_size doc)),
                             (''uploadedAt'', JDate (img_createdAt doc))])]\<rparr>,
         \<lparr>db = db initial @ [doc],
          files = (files initial)(img_filename doc \<mapsto> size_f photo_png)\<rparr>) \<and>
      img_originalname doc = originalname photo_png \<and> img_size doc = size_f photo_png)"
    "(\<exists>doc url.
      post_upload_p0 cfg_prod env_ok (req_with (Some photo_png)) initial =
        (\<lparr>status = 201,
          body = JObj [(''success'', JBool True),
                  (''message'', JStr ''Image uploaded successfully''),
                  (''image'', JObj [(''id'', JStr (img_id doc)),
                             (''name'', JStr (img_originalname doc)),
                             (''url'', JStr url),
                             (''size'', JNum (img_size doc)),
                             (''uploadedAt'', JDate (img_createdAt doc))])]\<rparr>,
         \<lparr>db = db initial @ [doc],
          files = (files initial)(img_filename doc \<mapsto> size_f photo_png)\<rparr>) \<and>
      img_originalname doc = originalname photo_png \<and> img_size doc = size_f photo_png)"
    "(\<exists>doc url.
      post_upload_p1 cfg_prod env_ok (req_with (Some photo_png)) initial =
        (\<lparr>status = 201,
          body = JObj [(''success'', JBool True),
                  (''message'', JStr ''Image uploaded successfully''),
                  (''data'', JObj [(''id'', JStr (img_id doc)),
                             (''name'', JStr (img_originalname doc)),
                             (''url'', JStr url),
                             (''size'', JNum (img_size doc)),
                             (''uploadedAt'', JDate (img_createdAt doc))])]\<rparr>,
         \<lparr>db = db initial @ [doc],
          files = (files initial)(img_filename doc \<mapsto> size_f photo_png)\<rparr>) \<and>
      img_originalname doc = originalname photo_png \<and> img_size doc = size_f photo_png)"
    by blast+
  from p(1) t [where res = "fst r" and st' = "snd r"]
  have b: "(\<exists>doc url f. image_field (req_with (Some photo_png)) = Some f \<and>
      db (snd (post_upload cfg_prod env_ok (req_with (Some photo_png)) initial)) =
        db initial @ [doc] \<and>
      img_originalname doc = originalname f \<and> img_size doc = size_f f \<and>
      body (fst (post_upload cfg_prod env_ok (req_with (Some photo_png)) initial)) =
        JObj [(''success'', JBool True),
              (''message'', JStr ''Image uploaded successfully''),
              (''data'', JObj [(''id'', JStr (img_id doc)),
                         (''name'', JStr (img_originalname doc)),
                         (''url'', JStr url),
                         (''size'', JNum (img_size doc)),
                         (''uploadedAt'', JDate (img_createdAt doc))])])"
    unfolding r_def by blast
  from p(2) t [where res = "fst r0" and st' = "snd r0"]
  have b0: "(\<exists>doc url f. image_field (req_with (Some photo_png)) = Some f \<and>
      db (snd (post_upload_p0 cfg_prod env_ok (req_with (Some photo_png)) initial)) =
        db initial @ [doc] \<and>
      img_originalname doc = originalname f \<and> img_size doc = size_f f \<and>
      body (fst (post_upload_p0 cfg_prod env_ok (req_with (Some photo_png)) initial)) =
        JObj [(''success'', JBool True),
              (''message'', JStr ''Image uploaded successfully''),
              (''image'', JObj [(''id'', JStr (img_id doc)),
                         (''name'', JStr (img_originalname doc)),
                         (''url'', JStr url),
                         (''size'', JNum (img_size doc)),
                         (''uploadedAt'', JDate (img_createdAt doc))])])"
    unfolding r0_def by blast
  from p(3) t [where res = "fst r1" and st' = "snd r1"]
  have b1: "(\<exists>doc url f. image_field (req_with (Some photo_png)) = Some f \<and>
      db (snd (post_upload_p1 cfg_prod env_ok (req_with (Some photo_png)) initial)) =
        db initial @ [doc] \<and>
      img_originalname doc = originalname f \<and> img_size doc = size_f f \<and>
      body (fst (post_upload_p1 cfg_prod env_ok (req_with (Some photo_png)) initial)) =
        JObj [(''success'', JBool True),
              (''message'', JStr ''Image uploaded successfully''),
              (''data'', JObj [(''id'', JStr (img_id doc)),
                         (''name'', JStr (img_originalname doc)),
                         (''url'', JStr url),
                         (''size'', JNum (img_size doc)),
                         (''uploadedAt'', JDate (img_createdAt doc))])])"
    unfolding r1_def by blast
  from a b b0 b1 show ?thesis by blast
qed

text \<open>
  C7 as stated fails on \<^verbatim>\<open>server.js\<close>: without a file the status is 400, but the message
  is \<^verbatim>\<open>No file uploaded or invalid file type\<close>, not \<^verbatim>\<open>No file uploaded\<close>.
\<close>

theorem post_upload_no_file_message:
  "status (fst (post_upload cfg_prod env_ok (req_with None) initial)) = 400 \<and>
   field (body (fst (post_upload cfg_prod env_ok (req_with None) initial))) ''error'' =
     Some (JStr ''No file uploaded or invalid file type'') \<and>
   field (body (fst (post_upload cfg_prod env_ok (req_with None) initial))) ''error'' \<noteq>
     Some (JStr ''No file uploaded'')"
  by (simp add: post_upload_no_file req_with_def)

text \<open>
  C7, amended.  An upload request whose field \<^verbatim>\<open>image\<close> carries no file is answered with
  status 400 and leaves the records and the files as they were; the error message is
  \<^verbatim>\<open>No file uploaded or invalid file type\<close> in \<^verbatim>\<open>server.js\<close>, \<^verbatim>\<open>No file uploaded\<close> in
  \<^verbatim>\<open>part_000\<close>, and \<^verbatim>\<open>No file uploaded or file type not allowed\<close> in \<^verbatim>\<open>part_001\<close>.
\<close>

theorem no_file_is_400:
  "image_field req = None \<Longrightarrow>
   post_upload cfg e req st =
     (\<lparr>status = 400,
       body = JObj [(''success'', JBool False),
                    (''error'', JStr ''No file uploaded or invalid file type'')]\<rparr>, st) \<and>
   post_upload_p0 cfg e req st =
     (\<lparr>status = 400, body = JObj [(''error'', JStr ''No file uploaded'')]\<rparr>, st) \<and>
   post_upload_p1 cfg e req st =
     (\<lparr>status = 400,
       body = JObj [(''success'', JBool False),
                    (''error'', JStr ''No file uploaded or file type not allowed'')]\<rparr>, st)"
  by (simp add: post_upload_no_file post_upload_p0_no_file post_upload_p1_no_file)

theorem no_file_is_400_witness:
  "post_upload cfg_prod env_ok (req_with None) initial =
     (\<lparr>status = 400,
       body = JObj [(''success'', JBool False),
                    (''error'', JStr ''No file uploaded or invalid file type'')]\<rparr>, initial) \<and>
   post_upload_p0 cfg_prod env_ok (req_with None) initial =
     (\<lparr>status = 400, body = JObj [(''error'', JStr ''No file uploaded'')]\<rparr>, initial) \<and>
   post_upload_p1 cfg_prod env_ok (req_with None) initial =
     (\<lparr>status = 400,
       body = JObj [(''success'', JBool False),
                    (''error'', JStr ''No file uploaded or file type not allowed'')]\<rparr>, initial)"
  using no_file_is_400 [of "req_with None" cfg_prod env_ok initial]
  by (simp add: req_with_def)

section \<open>URL builder: the claims\<close>

text \<open>
  C5 as stated fails twice.  On \<^verbatim>\<open>part_000\<close>, for a request over \<^verbatim>\<open>https\<close> to the host
  \<^verbatim>\<open>img.example.com\<close>, the URL of the created file is built from the configured
  \<^verbatim>\<open>BASE_URL\<close>, not from the scheme and host of the request.  On \<^verbatim>\<open>server.js\<close> in
  development mode, an upload whose file cannot be written is answered with the
  file-system error message as \<^verbatim>\<open>details\<close>, and that message holds the stored path: the
  answer changes with the upload directory.
\<close>

theorem url_from_base_url_and_path_in_details:
  "map img_filename (db (snd (post_upload_p0 cfg_prod env_ok (req_with (Some photo_png)) initial))) =
     [''img-1700000000123.png''] \<and>
   at_path (body (fst (post_upload_p0 cfg_prod env_ok (req_with (Some photo_png)) initial)))
     [''image'', ''url''] = Some (JStr ''http://localhost:3001/uploads/img-1700000000123.png'') \<and>
   protocol (req_with (Some photo_png)) @ ''://'' @ host (req_with (Some photo_png)) @
     ''/uploads/'' @ ''img-1700000000123.png'' =
     ''https://img.example.com/uploads/img-1700000000123.png'' \<and>
   at_path (body (fst (post_upload_p0 cfg_prod env_ok (req_with (Some photo_png)) initial)))
     [''image'', ''url''] \<noteq>
     Some (JStr (protocol (req_with (Some photo_png)) @ ''://'' @
       host (req_with (Some photo_png)) @ ''/uploads/'' @ ''img-1700000000123.png'')) \<and>
   status (fst (post_upload cfg_dev env_disk (req_with (Some photo_png)) initial)) = 500 \<and>
   field (body (fst (post_upload cfg_dev env_disk (req_with (Some photo_png)) initial)))
     ''details'' =
     Some (JStr (''EACCES: permission denied, open '' @ [CHR 0x27] @
       ''/app/uploads/1700000000123-42.png'' @ [CHR 0x27])) \<and>
   fst (post_upload (cfg_dev\<lparr>UPLOAD_DIR := ''/srv/data''\<rparr>) env_disk
          (req_with (Some photo_png)) initial) \<noteq>
   fst (post_upload cfg_dev env_disk (req_with (Some photo_png)) initial)"
proof -
  have "fs_message ''EACCES: permission denied'' ''/app/uploads/1700000000123-42.png'' =
      ''EACCES: permission denied, open '' @ [CHR 0x27] @
        ''/app/uploads/1700000000123-42.png'' @ [CHR 0x27]"
    by (simp add: fs_message_def)
  then show ?thesis
    unfolding example_uploads example_write_failed
    by (simp add: created_doc_def initial_def req_with_def cfg_dev_def details_def field_obj
        obj_def fs_message_def)
qed

text \<open>
  C5, amended.  In \<^verbatim>\<open>server.js\<close> and \<^verbatim>\<open>part_001\<close> the URL of a stored file, in the answer
  to an upload and in every entry of the list, is \<open>scheme://host/uploads/filename\<close> with the
  scheme and host of the request; in \<^verbatim>\<open>part_000\<close> it is \<open>BASE_URL/uploads/filename\<close> with
  the configured base URL.  The stored path is not exposed by \<^verbatim>\<open>part_000\<close> and \<^verbatim>\<open>part_001\<close>,
  nor by \<^verbatim>\<open>server.js\<close> outside development mode: the answer to an upload does not change
  with the upload directory, and the answer to a list request does not change with the
  paths held in the records.  In development mode \<^verbatim>\<open>server.js\<close> keeps the path to itself as
  long as the write succeeds; when the write fails, its \<^verbatim>\<open>details\<close> are the file-system
  error message, which names the stored path.
\<close>

theorem image_url_and_hidden_path:
  "(image_field req = Some f \<and> mimetype f \<in> spec_allow_list \<and> write_error e = None \<and>
    size_f f \<le> MAX_FILE_SIZE \<and> db_error e = None \<longrightarrow>
      status (fst (post_upload cfg e req st)) = 201 \<and>
      map img_filename (db (snd (post_upload cfg e req st))) =
        map img_filename (db st) @ [storage_filename e f] \<and>
      at_path (body (fst (post_upload cfg e req st))) [''data'', ''url''] =
        Some (JStr (protocol req @ ''://'' @ host req @ ''/uploads/'' @ storage_filename e f))) \<and>
   (image_field req = Some f \<and> mimetype f \<in> spec_allow_list \<and> write_error e = None \<and>
    size_f f \<le> MAX_FILE_SIZE \<and> db_error e = None \<longrightarrow>
      status (fst (post_upload_p1 cfg e req st)) = 201 \<and>
      map img_filename (db (snd (post_upload_p1 cfg e req st))) =
        map img_filename (db st) @ [storage_filename_p0 e f] \<and>
      at_path (body (fst (post_upload_p1 cfg e req st))) [''data'', ''url''] =
        Some (JStr (protocol req @ ''://'' @ host req @ ''/uploads/'' @ storage_filename_p0 e f))) \<and>
   (image_field req = Some f \<and> mimetype f \<in> spec_allow_list \<and> write_error e = None \<and>
    size_f f \<le> MAX_FILE_SIZE \<and> db_error e = None \<longrightarrow>
      status (fst (post_upload_p0 cfg e req st)) = 201 \<and>
      map img_filename (db (snd (post_upload_p0 cfg e req st))) =
        map img_filename (db st) @ [storage_filename_p0 e f] \<and>
      at_path (body (fst (post_upload_p0 cfg e req st))) [''image'', ''url''] =
        Some (JStr (BASE_URL cfg @ ''/uploads/'' @ storage_filename_p0 e f))) \<and>
   (post_upload cfg e req st = (res, st') \<and> status res = 201 \<longrightarrow>
      (\<exists>doc. db st' = db st @ [doc] \<and>
         at_path (body res) [''data'', ''url''] =
           Some (JStr (protocol req @ ''://'' @ host req @ ''/uploads/'' @ img_filename doc)))) \<and>
   (post_upload_p1 cfg e req st = (res, st') \<and> status res = 201 \<longrightarrow>
      (\<exists>doc. db st' = db st @ [doc] \<and>
         at_path (body res) [''data'', ''url''] =
           Some (JStr (protocol req @ ''://'' @ host req @ ''/uploads/'' @ img_filename doc)))) \<and>
   (post_upload_p0 cfg e req st = (res, st') \<and> status res = 201 \<longrightarrow>
      (\<exists>doc. db st' = db st @ [doc] \<and>
         at_path (body res) [''image'', ''url''] =
           Some (JStr (BASE_URL cfg @ ''/uploads/'' @ img_filename doc)))) \<and>
   (db_error e = None \<longrightarrow>
      field (body (get_images cfg e req st)) ''images'' =
        Some (JArr (map (\<lambda>img. projection
          (protocol req @ ''://'' @ host req @ ''/uploads/'' @ img_filename img) img)
          (find_sort (db st)))) \<and>
      field (body (get_images_p1 cfg e req st)) ''data'' =
        Some (JArr (map (\<lambda>img. projection
          (protocol req @ ''://'' @ host req @ ''/uploads/'' @ img_filename img) img)
          (find_sort (db st)))) \<and>
      field (body (get_images_p0 cfg e req st)) ''images'' =
        Some (JArr (map (\<lambda>img. projection (BASE_URL cfg @ ''/uploads/'' @ img_filename img) img)
          (find_sort (db st))))) \<and>
   (NODE_ENV cfg \<noteq> ''development'' \<or> write_error e = None \<longrightarrow>
      fst (post_upload (cfg\<lparr>UPLOAD_DIR := dir\<rparr>) e req st) = fst (post_upload cfg e req st)) \<and>
   (NODE_ENV cfg = ''development'' \<and> image_field req = Some f \<and>
    mimetype f \<in> spec_allow_list \<and> write_error e = Some reason \<longrightarrow>
      field (body (fst (post_upload cfg e req st))) ''details'' =
        Some (JStr (fs_message reason (UPLOAD_DIR cfg @ ''/'' @ storage_filename e f)))) \<and>
   fst (post_upload_p0 (cfg\<lparr>UPLOAD_DIR := dir\<rparr>) e req st) = fst (post_upload_p0 cfg e req st) \<and>
   fst (post_upload_p1 (cfg\<lparr>UPLOAD_DIR := dir\<rparr>) e req st) = fst (post_upload_p1 cfg e req st) \<and>
   get_images cfg e req (st\<lparr>db := map (\<lambda>img. img\<lparr>img_path := g img\<rparr>) (db st)\<rparr>) =
     get_images cfg e req st \<and>
   get_images_p0 cfg e req (st\<lparr>db := map (\<lambda>img. img\<lparr>img_path := g img\<rparr>) (db st)\<rparr>) =
     get_images_p0 cfg e req st \<and>
   get_images_p1 cfg e req (st\<lparr>db := map (\<lambda>img. img\<lparr>img_path := g img\<rparr>) (db st)\<rparr>) =
     get_images_p1 cfg e req st"
proof (intro conjI impI)
  assume h: "image_field req = Some f \<and> mimetype f \<in> spec_allow_list \<and> write_error e = None \<and>
    size_f f \<le> MAX_FILE_SIZE \<and> db_error e = None"
  from h have eq: "post_upload cfg e req st =
     (\<lparr>status = 201,
       body = JObj [(''success'', JBool True),
                    (''message'', JStr ''Image uploaded successfully''),
                    (''data'', projected (imageUrl req (storage_filename e f))
                                (created_doc cfg e (storage_filename e f) f))]\<rparr>,
      \<lparr>db = db st @ [created_doc cfg e (storage_filename e f) f],
       files = (files st)(storage_filename e f \<mapsto> size_f f)\<rparr>)"
    by (intro post_upload_created) simp_all
  show "status (fst (post_upload cfg e req st)) = 201"
    by (simp add: eq)
  show "map img_filename (db (snd (post_upload cfg e req st))) =
        map img_filename (db st) @ [storage_filename e f]"
    by (simp add: eq created_doc_def)
  show "at_path (body (fst (post_upload cfg e req st))) [''data'', ''url''] =
        Some (JStr (protocol req @ ''://'' @ host req @ ''/uploads/'' @ storage_filename e f))"
    by (simp add: eq projected_def imageUrl_def)
  from h have eq_p1: "post_upload_p1 cfg e req st =
     (\<lparr>status = 201,
       body = JObj [(''success'', JBool True),
                    (''message'', JStr ''Image uploaded successfully''),
                    (''data'', projected (imageUrl req (storage_filename_p0 e f))
                                (created_doc cfg e (storage_filename_p0 e f) f))]\<rparr>,
      \<lparr>db = db st @ [created_doc cfg e (storage_filename_p0 e f) f],
       files = (files st)(storage_filename_p0 e f \<mapsto> size_f f)\<rparr>)"
    by (intro post_upload_p1_created) simp_all
  show "status (fst (post_upload_p1 cfg e req st)) = 201"
    by (simp add: eq_p1)
  show "map img_filename (db (snd (post_upload_p1 cfg e req st))) =
        map img_filename (db st) @ [storage_filename_p0 e f]"
    by (simp add: eq_p1 created_doc_def)
  show "at_path (body (fst (post_upload_p1 cfg e req st))) [''data'', ''url''] =
        Some (JStr (protocol req @ ''://'' @ host req @ ''/uploads/'' @ storage_filename_p0 e f))"
    by (simp add: eq_p1 projected_def imageUrl_def)
  from h have eq_p0: "post_upload_p0 cfg e req st =
     (\<lparr>status = 201,
       body = JObj [(''success'', JBool True),
                    (''message'', JStr ''Image uploaded successfully''),
                    (''image'', projected (baseUrl_p0 cfg (storage_filename_p0 e f))
                                (created_doc cfg e (storage_filename_p0 e f) f))]\<rparr>,
      \<lparr>db = db st @ [created_doc cfg e (storage_filename_p0 e f) f],
       files = (files st)(storage_filename_p0 e f \<mapsto> size_f f)\<rparr>)"
    by (intro post_upload_p0_created) simp_all
  show "status (fst (post_upload_p0 cfg e req st)) = 201"
    by (simp add: eq_p0)
  show "map img_filename (db (snd (post_upload_p0 cfg e req st))) =
        map img_filename (db st) @ [storage_filename_p0 e f]"
    by (simp add: eq_p0 created_doc_def)
  show "at_path (body (fst (post_upload_p0 cfg e req st))) [''image'', ''url''] =
        Some (JStr (BASE_URL cfg @ ''/uploads/'' @ storage_filename_p0 e f))"
    by (simp add: eq_p0 projected_def baseUrl_p0_def)
next
  assume a: "post_upload cfg e req st = (res, st') \<and> status res = 201"
  then obtain f where f: "image_field req = Some f" "mimetype f \<in> spec_allow_list"
      "write_error e = None" "size_f f \<le> MAX_FILE_SIZE" "db_error e = None"
    using post_upload_201 by blast
  from a post_upload_created [OF f, of cfg st]
  show "\<exists>doc. db st' = db st @ [doc] \<and>
         at_path (body res) [''data'', ''url''] =
           Some (JStr (protocol req @ ''://'' @ host req @ ''/uploads/'' @ img_filename doc))"
    by (auto simp: projected_def created_doc_def imageUrl_def)
next
  assume a: "post_upload_p1 cfg e req st = (res, st') \<and> status res = 201"
  then obtain f where f: "image_field req = Some f" "mimetype f \<in> spec_allow_list"
      "write_error e = None" "size_f f \<le> MAX_FILE_SIZE" "db_error e = None"
    using post_upload_p1_201 by blast
  from a post_upload_p1_created [OF f, of cfg st]
  show "\<exists>doc. db st' = db st @ [doc] \<and>
         at_path (body res) [''data'', ''url''] =
           Some (JStr (protocol req @ ''://'' @ host req @ ''/uploads/'' @ img_filename doc))"
    by (auto simp: projected_def created_doc_def imageUrl_def)
next
  assume a: "post_upload_p0 cfg e req st = (res, st') \<and> status res = 201"
  then obtain f where f: "image_field req = Some f" "mimetype f \<in> spec_allow_list"
      "write_error e = None" "size_f f \<le> MAX_FILE_SIZE" "db_error e = None"
    using post_upload_p0_201 by blast
  from a post_upload_p0_created [OF f, of cfg st]
  show "\<exists>doc. db st' = db st @ [doc] \<and>
         at_path (body res) [''image'', ''url''] =
           Some (JStr (BASE_URL cfg @ ''/uploads/'' @ img_filename doc))"
    by (auto simp: projected_def created_doc_def baseUrl_p0_def)
next
  assume ok: "db_error e = None"
  show "field (body (get_images cfg e req st)) ''images'' =
        Some (JArr (map (\<lambda>img. projection
          (protocol req @ ''://'' @ host req @ ''/uploads/'' @ img_filename img) img)
          (find_sort (db st))))"
    by (simp add: get_images_ok [OF ok] projection_projected imageUrl_def)
  show "field (body (get_images_p1 cfg e req st)) ''data'' =
        Some (JArr (map (\<lambda>img. projection
          (protocol req @ ''://'' @ host req @ ''/uploads/'' @ img_filename img) img)
          (find_sort (db st))))"
    by (simp add: get_images_p1_ok [OF ok] projection_projected imageUrl_def)
  show "field (body (get_images_p0 cfg e req st)) ''images'' =
        Some (JArr (map (\<lambda>img. projection (BASE_URL cfg @ ''/uploads/'' @ img_filename img) img)
          (find_sort (db st))))"
    by (simp add: get_images_p0_ok [OF ok] projection_projected baseUrl_p0_def)
next
  assume "NODE_ENV cfg \<noteq> ''development'' \<or> write_error e = None"
  then show "fst (post_upload (cfg\<lparr>UPLOAD_DIR := dir\<rparr>) e req st) = fst (post_upload cfg e req st)"
    by (rule post_upload_upload_dir)
next
  assume "NODE_ENV cfg = ''development'' \<and> image_field req = Some f \<and>
    mimetype f \<in> spec_allow_list \<and> write_error e = Some reason"
  then show "field (body (fst (post_upload cfg e req st))) ''details'' =
        Some (JStr (fs_message reason (UPLOAD_DIR cfg @ ''/'' @ storage_filename e f)))"
    using post_upload_write_failed [of req f e reason cfg st]
    by (simp add: details_set field_obj)
qed (rule post_upload_p0_upload_dir post_upload_p1_upload_dir
    get_images_path get_images_p0_path get_images_p1_path)+

theorem image_url_and_hidden_path_witness:
  "status (fst (post_upload cfg_prod env_ok (req_with (Some photo_png)) initial)) = 201 \<and>
   at_path (body (fst (post_upload cfg_prod env_ok (req_with (Some photo_png)) initial)))
     [''data'', ''url''] = Some (JStr ''https://img.example.com/uploads/1700000000123-42.png'') \<and>
   status (fst (post_upload_p1 cfg_prod env_ok (req_with (Some photo_png)) initial)) = 201 \<and>
   at_path (body (fst (post_upload_p1 cfg_prod env_ok (req_with (Some photo_png)) initial)))
     [''data'', ''url''] = Some (JStr ''https://img.example.com/uploads/img-1700000000123.png'') \<and>
   status (fst (post_upload_p0 cfg_prod env_ok (req_with (Some photo_png)) initial)) = 201 \<and>
   at_path (body (fst (post_upload_p0 cfg_prod env_ok (req_with (Some photo_png)) initial)))
     [''image'', ''url''] = Some (JStr ''http://localhost:3001/uploads/img-1700000000123.png'') \<and>
   field (body (get_images cfg_prod env_ok (req_with None) initial)) ''images'' = Some (JArr []) \<and>
   map img_filename (db (snd (post_upload cfg_prod env_ok (req_with (Some photo_png)) initial))) =
     map img_filename (db initial) @ [storage_filename env_ok photo_png] \<and>
   map img_filename (db (snd (post_upload_p0 cfg_prod env_ok (req_with (Some photo_png)) initial))) =
     map img_filename (db initial) @ [storage_filename_p0 env_ok photo_png] \<and>
   map img_filename (db (snd (post_upload_p1 cfg_prod env_ok (req_with (Some photo_png)) initial))) =
     map img_filename (db initial) @ [storage_filename_p0 env_ok photo_png] \<and>
   fst (post_upload (cfg_prod\<lparr>UPLOAD_DIR := ''/srv/data''\<rparr>) env_disk
          (req_with (Some photo_png)) initial) =
   fst (post_upload cfg_prod env_disk (req_with (Some photo_png)) initial) \<and>
   fst (post_upload (cfg_dev\<lparr>UPLOAD_DIR := ''/srv/data''\<rparr>) env_ok
          (req_with (Some photo_png)) initial) =
   fst (post_upload cfg_dev env_ok (req_with (Some photo_png)) initial) \<and>
   field (body (fst (post_upload cfg_dev env_disk (req_with (Some photo_png)) initial)))
     ''details'' =
     Some (JStr (fs_message ''EACCES: permission denied''
       (UPLOAD_DIR cfg_dev @ ''/'' @ storage_filename env_disk photo_png)))"
proof -
  define r where "r = post_upload cfg_prod env_ok (req_with (Some photo_png)) initial"
  define r0 where "r0 = post_upload_p0 cfg_prod env_ok (req_with (Some photo_png)) initial"
  define r1 where "r1 = post_upload_p1 cfg_prod env_ok (req_with (Some photo_png)) initial"
  have a: "post_upload cfg_prod env_ok (req_with (Some photo_png)) initial = (fst r, snd r)"
    and b: "post_upload_p0 cfg_prod env_ok (req_with (Some photo_png)) initial = (fst r0, snd r0)"
    and c: "post_upload_p1 cfg_prod env_ok (req_with (Some photo_png)) initial = (fst r1, snd r1)"
    by (simp_all add: r_def r0_def r1_def)
  have s: "status (fst r) = 201" "status (fst r0) = 201" "status (fst r1) = 201"
    and n: "db (snd r) = [created_doc cfg_prod env_ok ''1700000000123-42.png'' photo_png]"
      "db (snd r0) = [created_doc cfg_prod env_ok ''img-1700000000123.png'' photo_png]"
      "db (snd r1) = [created_doc cfg_prod env_ok ''img-1700000000123.png'' photo_png]"
    unfolding r_def r0_def r1_def example_uploads by (simp_all add: initial_def)
  have d: "db_error env_ok = None"
    by (simp add: env_ok_def)
  have i: "find_sort (db initial) = []"
    by (simp add: find_sort_def initial_def)
  have v: "NODE_ENV cfg_prod \<noteq> ''development''" "NODE_ENV cfg_dev = ''development''"
    "write_error env_ok = None" "write_error env_disk = Some ''EACCES: permission denied''"
    "image_field (req_with (Some photo_png)) = Some photo_png"
    "mimetype photo_png \<in> spec_allow_list"
    by (simp_all add: cfg_prod_def cfg_dev_def env_ok_def env_disk_def req_with_def
        photo_png_def spec_allow_list_def)
  have u: "size_f photo_png \<le> MAX_FILE_SIZE"
    by (simp add: photo_png_def MAX_FILE_SIZE_def)
  from a b c s n d i v u
    image_url_and_hidden_path [where cfg = cfg_prod and e = env_ok
      and req = "req_with (Some photo_png)" and st = initial and f = photo_png]
    image_url_and_hidden_path [where cfg = cfg_prod and e = env_disk
      and req = "req_with (Some photo_png)" and st = initial and dir = "''/srv/data''"]
    image_url_and_hidden_path [where cfg = cfg_dev and e = env_ok
      and req = "req_with (Some photo_png)" and st = initial and dir = "''/srv/data''"]
    image_url_and_hidden_path [where cfg = cfg_dev and e = env_disk
      and req = "req_with (Some photo_png)" and st = initial and f = photo_png
      and reason = "''EACCES: permission denied''"]
    image_url_and_hidden_path [where cfg = cfg_prod and e = env_ok
      and req = "req_with (Some photo_png)" and st = initial and res = "fst r" and st' = "snd r"]
    image_url_and_hidden_path [where cfg = cfg_prod and e = env_ok
      and req = "req_with (Some photo_png)" and st = initial and res = "fst r0" and st' = "snd r0"]
    image_url_and_hidden_path [where cfg = cfg_prod and e = env_ok
      and req = "req_with (Some photo_png)" and st = initial and res = "fst r1" and st' = "snd r1"]
    image_url_and_hidden_path [where cfg = cfg_prod and e = env_ok
      and req = "req_with None" and st = initial]
  show ?thesis
    unfolding r_def [symmetric] r0_def [symmetric] r1_def [symmetric]
    by (simp add: created_doc_def req_with_def cfg_prod_def initial_def)
qed

section \<open>Record store and list handler: the claims\<close>

text \<open>
  C3.  The list operation returns every stored record, each as often as it is stored,
  ordered by \<^verbatim>\<open>createdAt\<close> descending, and the list handlers answer with the projections of
  exactly these records in that order; after a run of upload requests on the empty store
  it returns as many records as uploads were answered with 201.
\<close>

theorem list_all_sorted_and_complete:
  "mset (find_sort docs) = mset docs \<and>
   sorted_wrt (\<lambda>a b. img_createdAt b \<le> img_createdAt a) (find_sort docs) \<and>
   (db_error e = None \<longrightarrow>
      field (body (get_images cfg e req st)) ''images'' =
        Some (JArr (map (\<lambda>img. projection (imageUrl req (img_filename img)) img)
                     (find_sort (db st)))) \<and>
      field (body (get_images_p0 cfg e req st)) ''images'' =
        Some (JArr (map (\<lambda>img. projection (baseUrl_p0 cfg (img_filename img)) img)
                     (find_sort (db st)))) \<and>
      field (body (get_images_p1 cfg e req st)) ''data'' =
        Some (JArr (map (\<lambda>img. projection (imageUrl req (img_filename img)) img)
                     (find_sort (db st))))) \<and>
   (uploads post_upload cfg rs initial = (ress, st') \<longrightarrow>
      length (find_sort (db st')) = successes ress) \<and>
   (uploads post_upload_p0 cfg rs initial = (ress, st') \<longrightarrow>
      length (find_sort (db st')) = successes ress) \<and>
   (uploads post_upload_p1 cfg rs initial = (ress, st') \<longrightarrow>
      length (find_sort (db st')) = successes ress)"
proof (intro conjI impI)
  show "mset (find_sort docs) = mset docs"
    by (rule mset_find_sort)
  show "sorted_wrt (\<lambda>a b. img_createdAt b \<le> img_createdAt a) (find_sort docs)"
    by (rule find_sort_descending)
next
  assume ok: "db_error e = None"
  show "field (body (get_images cfg e req st)) ''images'' =
        Some (JArr (map (\<lambda>img. projection (imageUrl req (img_filename img)) img)
                     (find_sort (db st))))"
    by (simp add: get_images_ok [OF ok] projection_projected)
  show "field (body (get_images_p0 cfg e req st)) ''images'' =
        Some (JArr (map (\<lambda>img. projection (baseUrl_p0 cfg (img_filename img)) img)
                     (find_sort (db st))))"
    by (simp add: get_images_p0_ok [OF ok] projection_projected)
  show "field (body (get_images_p1 cfg e req st)) ''data'' =
        Some (JArr (map (\<lambda>img. projection (imageUrl req (img_filename img)) img)
                     (find_sort (db st))))"
    by (simp add: get_images_p1_ok [OF ok] projection_projected)
next
  assume "uploads post_upload cfg rs initial = (ress, st')"
  from uploads_length [of post_upload cfg, OF post_upload_db this]
  show "length (find_sort (db st')) = successes ress"
    by (simp add: length_find_sort initial_def)
next
  assume "uploads post_upload_p0 cfg rs initial = (ress, st')"
  from uploads_length [of post_upload_p0 cfg, OF post_upload_p0_db this]
  show "length (find_sort (db st')) = successes ress"
    by (simp add: length_find_sort initial_def)
next
  assume "uploads post_upload_p1 cfg rs initial = (ress, st')"
  from uploads_length [of post_upload_p1 cfg, OF post_upload_p1_db this]
  show "length (find_sort (db st')) = successes ress"
    by (simp add: length_find_sort initial_def)
qed

theorem list_all_sorted_and_complete_witness:
  "map status (fst (uploads post_upload cfg_prod example_run initial)) = [201, 500, 201] \<and>
   map img_id (find_sort (db (snd (uploads post_upload cfg_prod example_run initial)))) =
     [''66f1a1'', ''66f1a0''] \<and>
   length (find_sort (db (snd (uploads post_upload cfg_prod example_run initial)))) =
     successes (fst (uploads post_upload cfg_prod example_run initial)) \<and>
   length (find_sort (db (snd (uploads post_upload_p0 cfg_prod
       [(env_ok, req_with (Some photo_png))] initial)))) =
     successes (fst (uploads post_upload_p0 cfg_prod [(env_ok, req_with (Some photo_png))] initial)) \<and>
   length (find_sort (db (snd (uploads post_upload_p1 cfg_prod
       [(env_ok, req_with (Some photo_png))] initial)))) =
     successes (fst (uploads post_upload_p1 cfg_prod [(env_ok, req_with (Some photo_png))] initial)) \<and>
   field (body (get_images cfg_prod env_ok (req_with None)
       (snd (uploads post_upload cfg_prod example_run initial)))) ''count'' = Some (JNum 2) \<and>
   field (body (get_images cfg_prod env_ok (req_with None)
       (snd (uploads post_upload cfg_prod example_run initial)))) ''images'' =
     Some (JArr (map (\<lambda>img. projection (imageUrl (req_with None) (img_filename img)) img)
       (find_sort (db (snd (uploads post_upload cfg_prod example_run initial))))))"
proof -
  define r where "r = uploads post_upload cfg_prod example_run initial"
  define r0 where "r0 = uploads post_upload_p0 cfg_prod [(env_ok, req_with (Some photo_png))] initial"
  define r1 where "r1 = uploads post_upload_p1 cfg_prod [(env_ok, req_with (Some photo_png))] initial"
  have a: "uploads post_upload cfg_prod example_run initial = (fst r, snd r)"
    and b: "uploads post_upload_p0 cfg_prod [(env_ok, req_with (Some photo_png))] initial =
        (fst r0, snd r0)"
    and c: "uploads post_upload_p1 cfg_prod [(env_ok, req_with (Some photo_png))] initial =
        (fst r1, snd r1)"
    by (simp_all add: r_def r0_def r1_def)
  have d: "db_error env_ok = None"
    by (simp add: env_ok_def)
  have ids: "map img_id (find_sort (db (snd r))) = [''66f1a1'', ''66f1a0'']"
    unfolding r_def example_run_result
    by (simp add: find_sort_def created_doc_def env_ok_def env_later_def)
  have cnt: "field (body (get_images cfg_prod env_ok (req_with None) (snd r))) ''count'' =
      Some (JNum 2)"
    unfolding r_def by (simp add: get_images_ok [OF d] length_find_sort example_run_result)
  from a b c d ids cnt example_run_result(1)
    list_all_sorted_and_complete [where cfg = cfg_prod and rs = example_run
      and ress = "fst r" and st' = "snd r" and e = env_ok and req = "req_with None"
      and st = "snd r"]
    list_all_sorted_and_complete [where cfg = cfg_prod
      and rs = "[(env_ok, req_with (Some photo_png))]" and ress = "fst r0" and st' = "snd r0"]
    list_all_sorted_and_complete [where cfg = cfg_prod
      and rs = "[(env_ok, req_with (Some photo_png))]" and ress = "fst r1" and st' = "snd r1"]
  show ?thesis
    unfolding r_def [symmetric] r0_def [symmetric] r1_def [symmetric] by simp
qed

text \<open>
  C6 as stated fails on \<^verbatim>\<open>part_001\<close>: its successful list response has no key
  \<^verbatim>\<open>images\<close>; the projections are under \<^verbatim>\<open>data\<close>.
\<close>

theorem get_images_p1_has_no_images_key:
  "status (get_images_p1 cfg_prod env_ok (req_with None) initial) = 200 \<and>
   field (body (get_images_p1 cfg_prod env_ok (req_with None) initial)) ''images'' = None"
  by (simp add: get_images_p1_ok env_ok_def)

text \<open>
  C6, amended.  A list request whose query succeeds is answered with status 200 and a body
  of three keys: \<^verbatim>\<open>success\<close>, \<^verbatim>\<open>count\<close>, and the array of the projections
  \<^verbatim>\<open>{id, name, url, size, uploadedAt}\<close> of the records, under the key \<^verbatim>\<open>images\<close> in
  \<^verbatim>\<open>server.js\<close> and \<^verbatim>\<open>part_000\<close> and under the key \<^verbatim>\<open>data\<close> in \<^verbatim>\<open>part_001\<close>; \<^verbatim>\<open>count\<close>
  is the number of elements of that array.
\<close>

theorem list_response_shape:
  "db_error e = None \<Longrightarrow>
   get_images cfg e req st =
     \<lparr>status = 200,
      body = JObj [(''success'', JBool True),
                   (''count'', JNum (length (find_sort (db st)))),
                   (''images'', JArr (map (\<lambda>img. JObj [(''id'', JStr (img_id img)),
                        (''name'', JStr (img_originalname img)),
                        (''url'', JStr (imageUrl req (img_filename img))),
                        (''size'', JNum (img_size img)),
                        (''uploadedAt'', JDate (img_createdAt img))]) (find_sort (db st))))]\<rparr> \<and>
   get_images_p0 cfg e req st =
     \<lparr>status = 200,
      body = JObj [(''success'', JBool True),
                   (''count'', JNum (length (find_sort (db st)))),
                   (''images'', JArr (map (\<lambda>img. JObj [(''id'', JStr (img_id img)),
                        (''name'', JStr (img_originalname img)),
                        (''url'', JStr (baseUrl_p0 cfg (img_filename img))),
                        (''size'', JNum (img_size img)),
                        (''uploadedAt'', JDate (img_createdAt img))]) (find_sort (db st))))]\<rparr> \<and>
   get_images_p1 cfg e req st =
     \<lparr>status = 200,
      body = JObj [(''success'', JBool True),
                   (''count'', JNum (length (find_sort (db st)))),
                   (''data'', JArr (map (\<lambda>img. JObj [(''id'', JStr (img_id img)),
                        (''name'', JStr (img_originalname img)),
                        (''url'', JStr (imageUrl req (img_filename img))),
                        (''size'', JNum (img_size img)),
                        (''uploadedAt'', JDate (img_createdAt img))]) (find_sort (db st))))]\<rparr>"
  by (simp add: get_images_ok get_images_p0_ok get_images_p1_ok projected_def)

theorem list_response_shape_witness:
  "get_images cfg_prod env_ok (req_with None) example_state =
     \<lparr>status = 200,
      body = JObj [(''success'', JBool True), (''count'', JNum 2),
                (''images'', JArr [JObj [(''id'', JStr ''66f1a1''), (''name'', JStr ''cat.png''),
                            (''url'', JStr ''https://img.example.com/uploads/1700000000456-7.png''),
                            (''size'', JNum 2048), (''uploadedAt'', JDate 1700000000460)],
                      JObj [(''id'', JStr ''66f1a0''), (''name'', JStr ''photo.png''),
                            (''url'', JStr ''https://img.example.com/uploads/1700000000123-42.png''),
                            (''size'', JNum 1024), (''uploadedAt'', JDate 1700000000130)]])]\<rparr> \<and>
   get_images_p0 cfg_prod env_ok (req_with None) example_state =
     \<lparr>status = 200,
      body = JObj [(''success'', JBool True), (''count'', JNum 2),
                (''images'', JArr [JObj [(''id'', JStr ''66f1a1''), (''name'', JStr ''cat.png''),
                            (''url'', JStr ''http://localhost:3001/uploads/1700000000456-7.png''),
                            (''size'', JNum 2048), (''uploadedAt'', JDate 1700000000460)],
                      JObj [(''id'', JStr ''66f1a0''), (''name'', JStr ''photo.png''),
                            (''url'', JStr ''http://localhost:3001/uploads/1700000000123-42.png''),
                            (''size'', JNum 1024), (''uploadedAt'', JDate 1700000000130)]])]\<rparr> \<and>
   get_images_p1 cfg_prod env_ok (req_with None) example_state =
     \<lparr>status = 200,
      body = JObj [(''success'', JBool True), (''count'', JNum 2),
                (''data'', JArr [JObj [(''id'', JStr ''66f1a1''), (''name'', JStr ''cat.png''),
                            (''url'', JStr ''https://img.example.com/uploads/1700000000456-7.png''),
                            (''size'', JNum 2048), (''uploadedAt'', JDate 1700000000460)],
                      JObj [(''id'', JStr ''66f1a0''), (''name'', JStr ''photo.png''),
                            (''url'', JStr ''https://img.example.com/uploads/1700000000123-42.png''),
                            (''size'', JNum 1024), (''uploadedAt'', JDate 1700000000130)]])]\<rparr>"
  using list_response_shape [of env_ok cfg_prod "req_with None" example_state]
  by (simp add: env_ok_def example_state_def find_sort_def imageUrl_def baseUrl_p0_def
      req_with_def cfg_prod_def)

section \<open>Error reporting: the claim\<close>

text \<open>
  C8.  In \<^verbatim>\<open>server.js\<close>, when \<^verbatim>\<open>NODE_ENV\<close> is not \<^verbatim>\<open>development\<close> (production mode in
  particular), no response has a \<^verbatim>\<open>details\<close> field, and two failures that differ only in
  the underlying error message (of the database or of the file system) get the same
  response; in development mode \<^verbatim>\<open>details\<close> is the raw error message.  The two other files
  never send \<^verbatim>\<open>details\<close>.
\<close>

theorem details_only_in_development:
  "(NODE_ENV cfg \<noteq> ''development'' \<longrightarrow>
      field (body (fst (post_upload cfg e req st))) ''details'' = None \<and>
      field (body (get_images cfg e req st)) ''details'' = None \<and>
      field (body (error_middleware cfg err)) ''details'' = None \<and>
      fst (post_upload cfg (e\<lparr>db_error := Some m1\<rparr>) req st) =
        fst (post_upload cfg (e\<lparr>db_error := Some m2\<rparr>) req st) \<and>
      get_images cfg (e\<lparr>db_error := Some m1\<rparr>) req st =
        get_images cfg (e\<lparr>db_error := Some m2\<rparr>) req st \<and>
      error_middleware cfg (Error m1) = error_middleware cfg (Error m2) \<and>
      fst (post_upload cfg (e\<lparr>write_error := Some m1\<rparr>) req st) =
        fst (post_upload cfg (e\<lparr>write_error := Some m2\<rparr>) req st)) \<and>
   (NODE_ENV cfg = ''development'' \<longrightarrow>
      field (body (error_middleware cfg (Error m))) ''details'' = Some (JStr m) \<and>
      field (body (get_images cfg (e\<lparr>db_error := Some m\<rparr>) req st)) ''details'' = Some (JStr m) \<and>
      (image_field req = Some f \<and> mimetype f \<in> spec_allow_list \<and> write_error e = None \<and>
       size_f f \<le> MAX_FILE_SIZE \<longrightarrow>
         field (body (fst (post_upload cfg (e\<lparr>db_error := Some m\<rparr>) req st))) ''details'' =
           Some (JStr m)) \<and>
      (image_field req = Some f \<and> mimetype f \<in> spec_allow_list \<longrightarrow>
         field (body (fst (post_upload cfg (e\<lparr>write_error := Some m\<rparr>) req st))) ''details'' =
           Some (JStr (fs_message m (UPLOAD_DIR cfg @ ''/'' @ storage_filename e f))))) \<and>
   field (body not_found) ''details'' = None \<and>
   field (body (fst (post_upload_p0 cfg e req st))) ''details'' = None \<and>
   field (body (get_images_p0 cfg e req st)) ''details'' = None \<and>
   field (body (error_middleware_p0 cfg err)) ''details'' = None \<and>
   field (body (fst (post_upload_p1 cfg e req st))) ''details'' = None \<and>
   field (body (get_images_p1 cfg e req st)) ''details'' = None \<and>
   field (body (error_middleware_p1 cfg err)) ''details'' = None"
proof (intro conjI impI)
  assume prod: "NODE_ENV cfg \<noteq> ''development''"
  show "field (body (fst (post_upload cfg e req st))) ''details'' = None"
    using prod by (rule post_upload_no_details)
  show "field (body (get_images cfg e req st)) ''details'' = None"
    using prod
    by (simp add: get_images_def images_handler_def details_unset field_obj Let_def
        split: option.splits)
  show "field (body (error_middleware cfg err)) ''details'' = None"
    using prod by (simp add: error_middleware_def details_unset field_obj split: error.splits)
  show "fst (post_upload cfg (e\<lparr>db_error := Some m1\<rparr>) req st) =
        fst (post_upload cfg (e\<lparr>db_error := Some m2\<rparr>) req st)"
    using prod by (rule post_upload_same_response)
  show "get_images cfg (e\<lparr>db_error := Some m1\<rparr>) req st =
        get_images cfg (e\<lparr>db_error := Some m2\<rparr>) req st"
    using prod by (simp add: get_images_def images_handler_def details_unset)
  show "error_middleware cfg (Error m1) = error_middleware cfg (Error m2)"
    using prod by (simp add: error_middleware_def details_unset)
  show "fst (post_upload cfg (e\<lparr>write_error := Some m1\<rparr>) req st) =
        fst (post_upload cfg (e\<lparr>write_error := Some m2\<rparr>) req st)"
    using prod by (rule post_upload_same_response_write)
next
  assume dev: "NODE_ENV cfg = ''development''"
  show "field (body (error_middleware cfg (Error m))) ''details'' = Some (JStr m)"
    using dev by (simp add: error_middleware_def details_set field_obj)
  show "field (body (get_images cfg (e\<lparr>db_error := Some m\<rparr>) req st)) ''details'' = Some (JStr m)"
    using dev by (simp add: get_images_def images_handler_def details_set field_obj)
  {
    assume "image_field req = Some f \<and> mimetype f \<in> spec_allow_list \<and> write_error e = None \<and>
       size_f f \<le> MAX_FILE_SIZE"
    then show "field (body (fst (post_upload cfg (e\<lparr>db_error := Some m\<rparr>) req st))) ''details'' =
        Some (JStr m)"
      using dev post_upload_save_failed [of req f "e\<lparr>db_error := Some m\<rparr>" m cfg st]
      by (simp add: details_set field_obj)
  }
  {
    assume "image_field req = Some f \<and> mimetype f \<in> spec_allow_list"
    then show "field (body (fst (post_upload cfg (e\<lparr>write_error := Some m\<rparr>) req st)))
        ''details'' = Some (JStr (fs_message m (UPLOAD_DIR cfg @ ''/'' @ storage_filename e f)))"
      using dev post_upload_write_failed [of req f "e\<lparr>write_error := Some m\<rparr>" m cfg st]
      by (simp add: details_set field_obj storage_filename_def)
  }
next
  show "field (body not_found) ''details'' = None"
    by (simp add: not_found_def field_obj)
  show "field (body (fst (post_upload_p0 cfg e req st))) ''details'' = None"
    by (rule post_upload_p0_no_details)
  show "field (body (get_images_p0 cfg e req st)) ''details'' = None"
    by (simp add: get_images_p0_def images_handler_p0_def field_obj Let_def split: option.splits)
  show "field (body (error_middleware_p0 cfg err)) ''details'' = None"
    by (simp add: error_middleware_p0_def field_obj split: error.splits)
  show "field (body (fst (post_upload_p1 cfg e req st))) ''details'' = None"
    by (rule post_upload_p1_no_details)
  show "field (body (get_images_p1 cfg e req st)) ''details'' = None"
    by (simp add: get_images_p1_def images_handler_p1_def field_obj Let_def split: option.splits)
  show "field (body (error_middleware_p1 cfg err)) ''details'' = None"
    by (simp add: error_middleware_p1_def field_obj split: error.splits)
qed

theorem details_only_in_development_witness:
  "status (fst (post_upload cfg_prod env_down (req_with (Some photo_png)) initial)) = 500 \<and>
   field (body (fst (post_upload cfg_prod env_down (req_with (Some photo_png)) initial)))
     ''details'' = None \<and>
   field (body (fst (post_upload cfg_dev env_down (req_with (Some photo_png)) initial)))
     ''details'' = Some (JStr ''connect ECONNREFUSED 127.0.0.1:27017'') \<and>
   status (fst (post_upload cfg_prod env_disk (req_with (Some photo_png)) initial)) = 500 \<and>
   field (body (fst (post_upload cfg_prod env_disk (req_with (Some photo_png)) initial)))
     ''details'' = None \<and>
   field (body (fst (post_upload cfg_dev env_disk (req_with (Some photo_png)) initial)))
     ''details'' =
     Some (JStr (fs_message ''EACCES: permission denied''
       (UPLOAD_DIR cfg_dev @ ''/'' @ storage_filename env_ok photo_png)))"
proof -
  have f: "image_field (req_with (Some photo_png)) = Some photo_png"
    and m: "mimetype photo_png \<in> spec_allow_list"
    and w: "write_error env_down = None" "write_error env_ok = None"
    and z: "size_f photo_png \<le> MAX_FILE_SIZE"
    and d: "db_error env_down = Some ''connect ECONNREFUSED 127.0.0.1:27017''"
    and p: "NODE_ENV cfg_prod \<noteq> ''development''"
    and v: "NODE_ENV cfg_dev = ''development''"
    and x: "env_ok\<lparr>db_error := Some ''connect ECONNREFUSED 127.0.0.1:27017''\<rparr> = env_down"
      "env_ok\<lparr>write_error := Some ''EACCES: permission denied''\<rparr> = env_disk"
    by (simp_all add: req_with_def photo_png_def spec_allow_list_def MAX_FILE_SIZE_def
        env_down_def env_disk_def env_ok_def cfg_prod_def cfg_dev_def)
  have s: "status (fst (post_upload cfg_prod env_down (req_with (Some photo_png)) initial)) = 500"
    "status (fst (post_upload cfg_prod env_disk (req_with (Some photo_png)) initial)) = 500"
    by (simp_all add: post_upload_save_failed [OF f m w(1) z d] example_write_failed)
  from s p v f m w z x
    details_only_in_development [where cfg = cfg_prod and e = env_down
      and req = "req_with (Some photo_png)" and st = initial]
    details_only_in_development [where cfg = cfg_prod and e = env_disk
      and req = "req_with (Some photo_png)" and st = initial]
    details_only_in_development [where cfg = cfg_dev and e = env_ok
      and req = "req_with (Some photo_png)" and f = photo_png
      and m = "''connect ECONNREFUSED 127.0.0.1:27017''" and st = initial]
    details_only_in_development [where cfg = cfg_dev and e = env_ok
      and req = "req_with (Some photo_png)" and f = photo_png
      and m = "''EACCES: permission denied''" and st = initial]
  show ?thesis by simp
qed

section \<open>Generated file names: the claim\<close>

text \<open>
  C9 as stated fails: two uploads of distinct files that read the same clock value (and, in
  \<^verbatim>\<open>server.js\<close>, draw the same random integer) get the same generated name.
\<close>

theorem storage_filename_collision:
  "photo_png \<noteq> other_png \<and>
   storage_filename env_ok photo_png = storage_filename env_ok other_png \<and>
   storage_filename_p0 env_ok photo_png = storage_filename_p0 env_ok other_png"
  by (simp add: storage_filename_examples) (simp add: photo_png_def other_png_def)

text \<open>
  C9, amended.  The generated name ends with the extension of the original name and has
  that extension itself.  Two uploads get the same generated name exactly when they read
  the same clock value, have the same extension and, in \<^verbatim>\<open>server.js\<close>, draw the same random
  integer; so names differ whenever the clock values or the random draws differ, and
  nothing else keeps them apart.
\<close>

theorem storage_filename_extension_and_equality:
  "extname (storage_filename e f) = extname (originalname f) \<and>
   (\<exists>stem. storage_filename e f = stem @ extname (originalname f)) \<and>
   (storage_filename e1 f1 = storage_filename e2 f2 \<longleftrightarrow>
      now e1 = now e2 \<and> rnd e1 = rnd e2 \<and>
      extname (originalname f1) = extname (originalname f2)) \<and>
   extname (storage_filename_p0 e f) = extname (originalname f) \<and>
   (\<exists>stem. storage_filename_p0 e f = stem @ extname (originalname f)) \<and>
   (storage_filename_p0 e1 f1 = storage_filename_p0 e2 f2 \<longleftrightarrow>
      now e1 = now e2 \<and> extname (originalname f1) = extname (originalname f2))"
proof -
  have "\<exists>stem. storage_filename e f = stem @ extname (originalname f)"
    by (rule exI [of _ "toString (now e) @ ''-'' @ toString (rnd e)"])
      (simp add: storage_filename_def)
  moreover have "\<exists>stem. storage_filename_p0 e f = stem @ extname (originalname f)"
    by (rule exI [of _ "''img-'' @ toString (now e)"]) (simp add: storage_filename_p0_def)
  ultimately show ?thesis
    using extname_storage_filename [of e f] extname_storage_filename_p0 [of e f]
      storage_filename_eq_iff [of e1 f1 e2 f2] storage_filename_p0_eq_iff [of e1 f1 e2 f2]
    by blast
qed

theorem storage_filename_extension_and_equality_witness:
  "extname (storage_filename env_ok photo_png) = ''.png'' \<and>
   storage_filename env_ok photo_png \<noteq> storage_filename env_later other_png \<and>
   extname (storage_filename_p0 env_ok photo_png) = ''.png'' \<and>
   storage_filename_p0 env_ok photo_png \<noteq> storage_filename_p0 env_later other_png"
  using storage_filename_extension_and_equality [of env_ok photo_png env_ok photo_png env_later other_png]
  by (simp add: extname_examples photo_png_def) (simp add: env_ok_def env_later_def)

end
